theory Spec2Isabelle
  imports Main "HOL-Library.Word"
begin

text \<open>
  A model of the command-line tool \<open>@albatroz/ui\<close> (\<open>src/cli.js\<close>), which
  initialises an Expo project and copies component files into it.  The second
  source file of the repository is an earlier draft of the same program, with the
  same initialisation and no body for the command \<open>add\<close>; the finished file is
  the one modelled.

  The functions of the program are statements over an explicit process state.
  What lies outside the source (the JavaScript built-ins, the HTTP server, the
  operator, the package manager) is a parameter, the \<open>world\<close>, so that each
  theorem holds whatever these do, unless it names an assumption on them.
\<close>

section \<open>JavaScript strings\<close>

text \<open>
  A JavaScript string is a sequence of UTF-16 code units.  String literals of the
  source are ASCII and are written \<open>js ''...''\<close>.
\<close>

type_synonym jsstring = "16 word list"

definition js :: "string \<Rightarrow> jsstring" where
  "js s = map of_char s"

definition is_ascii :: "jsstring \<Rightarrow> bool" where
  "is_ascii s = list_all (\<lambda>u. u < 0x80) s"

definition is_upper_unit :: "16 word \<Rightarrow> bool" where
  "is_upper_unit u = (0x41 \<le> u \<and> u \<le> 0x5A)"

definition lower_unit :: "16 word \<Rightarrow> 16 word" where
  "lower_unit u = (if is_upper_unit u then u + 0x20 else u)"

text \<open>
  \<open>String.prototype.charAt(i)\<close>: the code unit at index \<open>i\<close> as a string of
  length one, the empty string out of range.  \<open>String.prototype.slice(i)\<close> for
  a non-negative \<open>i\<close>: the code units from index \<open>i\<close> on.
\<close>

definition charAt :: "jsstring \<Rightarrow> nat \<Rightarrow> jsstring" where
  "charAt s i = (if i < length s then [s ! i] else [])"

definition slice :: "jsstring \<Rightarrow> nat \<Rightarrow> jsstring" where
  "slice s i = drop i s"

text \<open>Decimal digits of an index, as used for the property names of strings and arrays.\<close>

function decimal :: "nat \<Rightarrow> jsstring" where
  "decimal n = (if n < 10 then [of_nat (48 + n)]
                else decimal (n div 10) @ [of_nat (48 + n mod 10)])"
  by pat_completeness auto
termination
  by (relation "measure id") auto

declare decimal.simps [simp del]

section \<open>Values of the JavaScript runtime\<close>

text \<open>
  Values obtained from \<open>JSON.parse\<close> are immutable trees.  \<open>JUndefined\<close> is the
  result of reading a property that does not exist.  A JSON number is kept as an
  integer: the program only tests numbers for being zero.
\<close>

datatype jsval =
    JUndefined
  | JNull
  | JBool bool
  | JNum int
  | JStr jsstring
  | JArr "jsval list"
  | JObj "(jsstring \<times> jsval) list"

text \<open>An \<open>Error\<close> object: its \<open>message\<close> and, for an HTTP error, \<open>response.status\<close>.\<close>

datatype err = Err (message: jsstring) (response_status: "nat option")

text \<open>
  What the network gives for a GET request: the final reply of the server, with its
  status and body, or no reply at all, with the message of the network error.
\<close>

datatype http_reply = Reply nat jsstring | NoReply jsstring

datatype package_manager = Npm | Yarn | Pnpm

type_synonym files = "jsstring \<Rightarrow> jsstring option"

text \<open>
  Everything the program takes from outside its own source: the built-in functions of
  the JavaScript runtime that it calls, the remote server, the operator at the
  prompt and the package manager run as a child process.

  \<^item> \<open>lower_non_ascii\<close> is \<open>String.prototype.toLowerCase\<close> on strings with a code
    unit outside ASCII (Unicode case mapping);
  \<^item> \<open>JSON_parse\<close> gives the message of the \<open>SyntaxError\<close> or the parsed value;
  \<open>JSON_stringify v\<close> is \<open>JSON.stringify(v, null, 2)\<close>;
  \<^item> \<open>String_of\<close> is the string conversion of a template literal on numbers,
    arrays and objects;
  \<^item> \<open>http_get\<close> answers a GET request for a URL;
  \<^item> \<open>prompt_choice\<close> is the operator's answer to the list prompt;
  \<^item> \<open>execSync\<close> runs a shell command on the files of the project: it gives the
    message of the error it throws, if any, and the files it leaves.
\<close>

record world =
  lower_non_ascii :: "jsstring \<Rightarrow> jsstring"
  JSON_parse :: "jsstring \<Rightarrow> jsstring + jsval"
  JSON_stringify :: "jsval \<Rightarrow> jsstring"
  String_of :: "jsval \<Rightarrow> jsstring"
  http_get :: "jsstring \<Rightarrow> http_reply"
  prompt_choice :: package_manager
  execSync :: "jsstring \<Rightarrow> files \<Rightarrow> jsstring option \<times> files"

definition toLowerCase :: "world \<Rightarrow> jsstring \<Rightarrow> jsstring" where
  "toLowerCase w s = (if is_ascii s then map lower_unit s else lower_non_ascii w s)"

fun truthy :: "jsval \<Rightarrow> bool" where
  "truthy JUndefined = False"
| "truthy JNull = False"
| "truthy (JBool b) = b"
| "truthy (JNum n) = (n \<noteq> 0)"
| "truthy (JStr s) = (s \<noteq> [])"
| "truthy (JArr xs) = True"
| "truthy (JObj kvs) = True"

text \<open>
  Reading a property \<open>v.k\<close>, for the names the program reads (\<open>dependencies\<close>,
  \<open>devDependencies\<close>, \<open>baseUrl\<close>), none of which is a property of a prototype:
  a \<open>TypeError\<close> on \<open>null\<close> and \<open>undefined\<close>, \<open>undefined\<close> where the property is
  missing.
\<close>

definition type_error :: "jsstring \<Rightarrow> err" where
  "type_error k =
     Err (js ''Cannot read properties of null (reading '' @ [0x27] @ k @ [0x27] @ js '')'') None"

fun get_prop :: "jsval \<Rightarrow> jsstring \<Rightarrow> err + jsval" where
  "get_prop JUndefined k = Inl (type_error k)"
| "get_prop JNull k = Inl (type_error k)"
| "get_prop (JObj kvs) k = Inr (case map_of kvs k of None \<Rightarrow> JUndefined | Some v \<Rightarrow> v)"
| "get_prop v k = Inr JUndefined"

text \<open>
  The own enumerable properties that an object spread \<open>{...v}\<close> copies: those of
  an object, the indices of a string or an array, none of any other value.
\<close>

fun own_props :: "jsval \<Rightarrow> (jsstring \<times> jsval) list" where
  "own_props (JObj kvs) = kvs"
| "own_props (JStr s) = map (\<lambda>i. (decimal i, JStr [s ! i])) [0..<length s]"
| "own_props (JArr xs) = map (\<lambda>i. (decimal i, xs ! i)) [0..<length xs]"
| "own_props v = []"

text \<open>\<open>{...a, ...b}\<close> as a dictionary: the properties of \<open>b\<close> override those of \<open>a\<close>.\<close>

definition spread2 :: "jsval \<Rightarrow> jsval \<Rightarrow> (jsstring \<rightharpoonup> jsval)" where
  "spread2 a b = map_of (own_props a) ++ map_of (own_props b)"

definition lookup :: "(jsstring \<rightharpoonup> jsval) \<Rightarrow> jsstring \<Rightarrow> jsval" where
  "lookup m k = (case m k of None \<Rightarrow> JUndefined | Some v \<Rightarrow> v)"

text \<open>A template literal \<open>`${v}`\<close>.\<close>

fun template :: "world \<Rightarrow> jsval \<Rightarrow> jsstring" where
  "template w (JStr s) = s"
| "template w JUndefined = js ''undefined''"
| "template w JNull = js ''null''"
| "template w (JBool b) = (if b then js ''true'' else js ''false'')"
| "template w v = String_of w v"

section \<open>The process: module state, files and observable effects\<close>

datatype event =
    Stdout jsstring
  | Stderr jsstring
  | SpinStart jsstring
  | SpinSucceed jsstring
  | SpinFail jsstring
  | ReadFile jsstring
  | WriteFile jsstring jsstring
  | MkDirs jsstring
  | HttpGet jsstring
  | Prompt jsstring
  | Exec jsstring

text \<open>
  The object \<open>dependencies\<close> of a configuration lives in a store, since the program
  updates it in place through a reference; the configuration object itself is
  only ever built and read, so it is a value holding that reference.
\<close>

type_synonym addr = nat

record deps_obj =
  expo :: bool
  lucide_react_native :: bool

record config =
  baseUrl :: jsstring
  dependencies :: addr

text \<open>
  The state of a running process: the store, the files of the working directory
  (by their path relative to it) and the effects performed so far, oldest first.
\<close>

record proc =
  heap :: "addr \<Rightarrow> deps_obj"
  files :: files
  trace :: "event list"

text \<open>
  A statement returns a value, throws an error or ends the process
  (\<open>process.exit\<close>, which no \<open>catch\<close> intercepts).
\<close>

datatype 'a result = Return 'a | Throw err | Exit nat

type_synonym 'a prog = "proc \<Rightarrow> 'a result \<times> proc"

definition ret :: "'a \<Rightarrow> 'a prog" where
  "ret x p = (Return x, p)"

definition throw :: "err \<Rightarrow> 'a prog" where
  "throw e p = (Throw e, p)"

definition process_exit :: "nat \<Rightarrow> 'a prog" where
  "process_exit n p = (Exit n, p)"

definition bind_prog :: "'a prog \<Rightarrow> ('a \<Rightarrow> 'b prog) \<Rightarrow> 'b prog" where
  "bind_prog m f p =
     (case m p of
        (Return x, q) \<Rightarrow> f x q
      | (Throw e, q) \<Rightarrow> (Throw e, q)
      | (Exit n, q) \<Rightarrow> (Exit n, q))"

definition seq :: "'a prog \<Rightarrow> 'b prog \<Rightarrow> 'b prog" where
  "seq m n = bind_prog m (\<lambda>_. n)"

definition try_catch :: "'a prog \<Rightarrow> (err \<Rightarrow> 'a prog) \<Rightarrow> 'a prog" where
  "try_catch m h p =
     (case m p of
        (Return x, q) \<Rightarrow> (Return x, q)
      | (Throw e, q) \<Rightarrow> h e q
      | (Exit n, q) \<Rightarrow> (Exit n, q))"

definition lift :: "err + 'a \<Rightarrow> 'a prog" where
  "lift r = (case r of Inl e \<Rightarrow> throw e | Inr x \<Rightarrow> ret x)"

definition emit :: "event \<Rightarrow> unit prog" where
  "emit e p = (Return (), p\<lparr>trace := trace p @ [e]\<rparr>)"

fun forEach :: "'a list \<Rightarrow> ('a \<Rightarrow> unit prog) \<Rightarrow> unit prog" where
  "forEach [] f = ret ()"
| "forEach (x # xs) f = seq (f x) (forEach xs f)"

text \<open>The terminal.  Colours are not modelled; \<open>console.error(a, b)\<close> prints \<open>a b\<close>.\<close>

definition console_log :: "jsstring \<Rightarrow> unit prog" where
  "console_log s = emit (Stdout s)"

definition console_error :: "jsstring \<Rightarrow> unit prog" where
  "console_error s = emit (Stderr s)"

definition console_error2 :: "jsstring \<Rightarrow> jsstring \<Rightarrow> unit prog" where
  "console_error2 a b = emit (Stderr (a @ js '' '' @ b))"

text \<open>
  The file system.  Reading a missing file throws; writing creates or replaces the
  file and always succeeds, as does the creation of directories: a disk that
  refuses a write is not modelled.  \<open>fs.writeFile\<close> writes a string and throws
  a \<open>TypeError\<close> on any other value obtained from JSON; Node ends the message
  given here with a description of the value it received.
\<close>

definition enoent :: "jsstring \<Rightarrow> err" where
  "enoent path =
     Err (js ''ENOENT: no such file or directory, open '' @ [0x27] @ path @ [0x27]) None"

definition readFileSync :: "jsstring \<Rightarrow> jsstring prog" where
  "readFileSync path p =
     (let q = p\<lparr>trace := trace p @ [ReadFile path]\<rparr>
      in case files p path of None \<Rightarrow> (Throw (enoent path), q) | Some s \<Rightarrow> (Return s, q))"

definition existsSync :: "jsstring \<Rightarrow> bool prog" where
  "existsSync path p = (Return (files p path \<noteq> None), p)"

definition writeFileSync :: "jsstring \<Rightarrow> jsstring \<Rightarrow> unit prog" where
  "writeFileSync path s p =
     (Return (), p\<lparr>files := (files p)(path \<mapsto> s), trace := trace p @ [WriteFile path s]\<rparr>)"

definition invalid_data :: err where
  \<open>invalid_data =
     Err (js ''The "data" argument must be of type string or an instance of Buffer, TypedArray, or DataView.'')
       None\<close>

definition writeFile :: "jsstring \<Rightarrow> jsval \<Rightarrow> unit prog" where
  "writeFile path content =
     (case content of JStr s \<Rightarrow> writeFileSync path s | _ \<Rightarrow> throw invalid_data)"

definition ensureDir :: "jsstring \<Rightarrow> unit prog" where
  "ensureDir path = emit (MkDirs path)"

text \<open>
  \<open>path.join\<close> on segments that need no normalisation.  Paths are relative to the
  working directory, so \<open>process.cwd()\<close> is the empty prefix.
\<close>

definition path_join :: "jsstring \<Rightarrow> jsstring \<Rightarrow> jsstring" where
  "path_join a b = a @ js ''/'' @ b"

definition json_parse :: "world \<Rightarrow> jsstring \<Rightarrow> jsval prog" where
  "json_parse w s = (case JSON_parse w s of Inl m \<Rightarrow> throw (Err m None) | Inr v \<Rightarrow> ret v)"

text \<open>
  \<open>axios.get\<close> resolves with the response when the status is 2xx and rejects
  otherwise, the error carrying the response whenever there was one.  The
  \<open>data\<close> of a response is not the body as sent: the client removes a leading
  byte order mark, and its default transformation replaces a non-empty body that
  \<open>JSON.parse\<close> accepts by the parsed value.
\<close>

definition strip_bom :: "jsstring \<Rightarrow> jsstring" where
  "strip_bom s = (case s of [] \<Rightarrow> [] | u # us \<Rightarrow> if u = 0xFEFF then us else s)"

definition response_data :: "world \<Rightarrow> jsstring \<Rightarrow> jsval" where
  "response_data w body =
     (let s = strip_bom body
      in if s = [] then JStr s
         else case JSON_parse w s of Inl m \<Rightarrow> JStr s | Inr v \<Rightarrow> v)"

definition axios_get :: "world \<Rightarrow> jsstring \<Rightarrow> jsval prog" where
  "axios_get w url =
     seq (emit (HttpGet url))
       (case http_get w url of
          Reply st body \<Rightarrow>
            if 200 \<le> st \<and> st < 300 then ret (response_data w body)
            else throw (Err (js ''Request failed with status code '' @ decimal st) (Some st))
        | NoReply m \<Rightarrow> throw (Err m None))"

definition inquirer_prompt :: "world \<Rightarrow> package_manager prog" where
  "inquirer_prompt w =
     seq (emit (Prompt (js ''Which package manager do you want to use?'')))
       (ret (prompt_choice w))"

definition exec :: "world \<Rightarrow> jsstring \<Rightarrow> unit prog" where
  "exec w cmd p =
     (let (r, fs) = execSync w cmd (files p);
          q = p\<lparr>files := fs, trace := trace p @ [Exec cmd]\<rparr>
      in case r of None \<Rightarrow> (Return (), q) | Some m \<Rightarrow> (Throw (Err m None), q))"

definition get_deps :: "addr \<Rightarrow> deps_obj prog" where
  "get_deps a p = (Return (heap p a), p)"

definition set_expo :: "addr \<Rightarrow> bool \<Rightarrow> unit prog" where
  "set_expo a b p = (Return (), p\<lparr>heap := (heap p)(a := (heap p a)\<lparr>expo := b\<rparr>)\<rparr>)"

definition set_lucide_react_native :: "addr \<Rightarrow> bool \<Rightarrow> unit prog" where
  "set_lucide_react_native a b p =
     (Return (), p\<lparr>heap := (heap p)(a := (heap p a)\<lparr>lucide_react_native := b\<rparr>)\<rparr>)"

section \<open>The program\<close>

definition AVAILABLE_COMPONENTS :: "jsstring list" where
  "AVAILABLE_COMPONENTS = [js ''alert'', js ''avatar'', js ''card'', js ''toast'']"

definition CONFIG_FILE :: jsstring where
  "CONFIG_FILE = js ''albatroz.json''"

text \<open>
  \<open>DEFAULT_CONFIG\<close> is created once, when the module is loaded; its \<open>dependencies\<close>
  object is the one at \<open>default_dependencies\<close> in the store of the fresh process.
\<close>

definition default_dependencies :: addr where
  "default_dependencies = 0"

definition DEFAULT_CONFIG :: config where
  "DEFAULT_CONFIG =
     \<lparr>baseUrl =
        js ''https://raw.githubusercontent.com/eugustavo/albatroz/refs/heads/main/src/components'',
      dependencies = default_dependencies\<rparr>"

definition module_loaded :: "files \<Rightarrow> proc" where
  "module_loaded fs =
     \<lparr>heap = (\<lambda>a. \<lparr>expo = False, lucide_react_native = False\<rparr>), files = fs, trace = []\<rparr>"

text \<open>
  The object spread \<open>{ ...c }\<close> of a configuration: a new object with the same
  property values, so with the same reference in \<open>dependencies\<close>.
\<close>

definition spread_config :: "config \<Rightarrow> config" where
  "spread_config c = \<lparr>baseUrl = baseUrl c, dependencies = dependencies c\<rparr>"

definition formatComponentName :: "world \<Rightarrow> jsstring \<Rightarrow> jsstring" where
  "formatComponentName w name =
     (if name = [] then []
      else toLowerCase w (charAt name 0) @ toLowerCase w (slice name 1))"

definition downloadComponent :: "world \<Rightarrow> jsstring \<Rightarrow> jsval \<Rightarrow> jsval prog" where
  "downloadComponent w componentName base =
     try_catch
       (axios_get w (template w base @ js ''/'' @ toLowerCase w componentName @ js ''.tsx''))
       (\<lambda>error.
          if response_status error = Some 404
          then throw (Err (js ''Component not found in repository'') None)
          else throw error)"

text \<open>
  The first two statements of \<open>checkExpoProject\<close> and of \<open>checkDependency\<close>:
  the manifest is read and parsed, and its two dependency objects are merged.
\<close>

definition merged_dependencies :: "world \<Rightarrow> (jsstring \<rightharpoonup> jsval) prog" where
  "merged_dependencies w =
     bind_prog (readFileSync (js ''package.json'')) (\<lambda>text.
     bind_prog (json_parse w text) (\<lambda>packageJson.
     bind_prog (lift (get_prop packageJson (js ''dependencies''))) (\<lambda>d.
     bind_prog (lift (get_prop packageJson (js ''devDependencies''))) (\<lambda>dd.
     ret (spread2 d dd)))))"

definition checkExpoProject :: "world \<Rightarrow> bool prog" where
  "checkExpoProject w =
     try_catch
       (bind_prog (merged_dependencies w) (\<lambda>deps.
          if \<not> truthy (lookup deps (js ''expo'')) then
            seq (console_error (js ''\<newline>Error: This is not an Expo project''))
           (seq (console_log (js ''\<newline>At this moment, we only support Expo projects.''))
           (seq (console_log (js ''\<newline>Please create a new project using:''))
           (seq (console_log (js ''\<newline>  npx create-expo-app@latest''))
                (process_exit 1))))
          else ret True))
       (\<lambda>error.
          seq (console_error (js ''\<newline>Error: Could not find package.json''))
         (seq (console_log (js ''\<newline>Please make sure you are in the root of your project.''))
              (process_exit 1)))"

definition checkDependency :: "world \<Rightarrow> jsstring \<Rightarrow> bool prog" where
  "checkDependency w dependency =
     try_catch
       (bind_prog (merged_dependencies w) (\<lambda>deps. ret (truthy (lookup deps dependency))))
       (\<lambda>error. ret False)"

definition readConfig :: "world \<Rightarrow> jsval prog" where
  "readConfig w = bind_prog (readFileSync CONFIG_FILE) (json_parse w)"

text \<open>The JSON tree of a configuration object, its reference followed in the store.\<close>

definition config_json :: "jsstring \<Rightarrow> deps_obj \<Rightarrow> jsval" where
  "config_json url d =
     JObj [(js ''baseUrl'', JStr url),
           (js ''dependencies'',
            JObj [(js ''expo'', JBool (expo d)),
                  (js ''lucide-react-native'', JBool (lucide_react_native d))])]"

definition saveConfig :: "world \<Rightarrow> config \<Rightarrow> unit prog" where
  "saveConfig w cfg =
     bind_prog (get_deps (dependencies cfg)) (\<lambda>d.
       writeFileSync CONFIG_FILE (JSON_stringify w (config_json (baseUrl cfg) d)))"

definition install_command :: "package_manager option \<Rightarrow> jsval" where
  "install_command packageManager =
     (case packageManager of
        None \<Rightarrow> JUndefined
      | Some Npm \<Rightarrow> JStr (js ''npm install'')
      | Some Yarn \<Rightarrow> JStr (js ''yarn add'')
      | Some Pnpm \<Rightarrow> JStr (js ''pnpm add''))"

text \<open>The \<open>try\<close> block of \<open>initializeProject\<close> and its \<open>catch\<close> clause.\<close>

definition install_and_save :: "world \<Rightarrow> config \<Rightarrow> package_manager option \<Rightarrow> bool prog" where
  "install_and_save w cfg packageManager =
     seq (bind_prog (get_deps (dependencies cfg)) (\<lambda>d.
            if \<not> lucide_react_native d then
              (let installCommand = install_command packageManager
               in bind_prog (get_deps (dependencies cfg)) (\<lambda>d'.
                    if \<not> lucide_react_native d' then
                      seq (exec w (template w installCommand @ js '' lucide-react-native''))
                          (set_lucide_react_native (dependencies cfg) True)
                    else ret ()))
            else ret ()))
    (seq (saveConfig w cfg)
    (seq (emit (SpinSucceed (js ''Project initialized successfully!'')))
         (ret True)))"

definition init_failed :: "err \<Rightarrow> bool prog" where
  "init_failed error =
     seq (emit (SpinFail (js ''Failed to initialize project'')))
    (seq (console_error2 (js ''\<newline>Error details:'') (message error))
         (ret False))"

definition initializeProject :: "world \<Rightarrow> bool prog" where
  "initializeProject w =
     seq (console_log (js ''\<newline>Initializing Albatroz UI...''))
    (seq (checkExpoProject w)
    (let cfg = spread_config DEFAULT_CONFIG in
     bind_prog (checkDependency w (js ''expo'')) (\<lambda>e.
     seq (set_expo (dependencies cfg) e)
    (bind_prog (checkDependency w (js ''lucide-react-native'')) (\<lambda>l.
     seq (set_lucide_react_native (dependencies cfg) l)
    (bind_prog (get_deps (dependencies cfg)) (\<lambda>d.
     bind_prog (if \<not> lucide_react_native d
                then bind_prog (inquirer_prompt w) (\<lambda>answer. ret (Some answer))
                else ret None) (\<lambda>packageManager.
     seq (emit (SpinStart (js ''Checking and installing dependencies...'')))
         (try_catch (install_and_save w cfg packageManager) init_failed)))))))))"

definition ensureConfig :: "world \<Rightarrow> bool prog" where
  "ensureConfig w =
     bind_prog (existsSync CONFIG_FILE) (\<lambda>found.
       if \<not> found then seq (initializeProject w) (ret False) else ret True)"

definition list_components :: "world \<Rightarrow> unit prog" where
  "list_components w =
     seq (console_log (js ''\<newline>Available components:''))
         (forEach AVAILABLE_COMPONENTS
            (\<lambda>comp. console_log (js ''  - '' @ formatComponentName w comp)))"

definition addComponent :: "world \<Rightarrow> jsstring \<Rightarrow> jsval \<Rightarrow> unit prog" where
  "addComponent w componentName cfg =
     seq (emit (SpinStart (js ''Adding component...'')))
       (try_catch
          (let normalizedName = toLowerCase w componentName in
           if normalizedName \<notin> set AVAILABLE_COMPONENTS then
             seq (emit (SpinFail (js ''Component not available'')))
                 (list_components w)
           else
             bind_prog (lift (get_prop cfg (js ''baseUrl''))) (\<lambda>base.
             bind_prog (downloadComponent w componentName base) (\<lambda>componentContent.
             (let componentPath = js ''src/components/ui'' in
              seq (ensureDir componentPath)
             (let formattedName = formatComponentName w componentName in
              seq (writeFile (path_join componentPath (formattedName @ js ''.tsx''))
                     componentContent)
             (seq (emit (SpinSucceed
                     (js ''Component '' @ formattedName @ js '' added successfully!'')))
                  (console_log
                     (js ''\<newline>Location: src/components/ui/'' @ formattedName @ js ''.tsx''))))))))
          (\<lambda>error.
             seq (emit (SpinFail
                    (js ''Failed to add component '' @ formatComponentName w componentName)))
                 (console_error2 (js ''\<newline>Error details:'') (message error))))"

text \<open>The two commands; the argument of \<open>add\<close> is optional.\<close>

definition init_action :: "world \<Rightarrow> unit prog" where
  "init_action w = seq (initializeProject w) (ret ())"

definition add_action :: "world \<Rightarrow> jsstring option \<Rightarrow> unit prog" where
  "add_action w component =
     try_catch
       (seq (checkExpoProject w)
       (bind_prog (ensureConfig w) (\<lambda>ready.
          if \<not> ready then console_log (js ''\<newline>Please run init command first.'')
          else
            bind_prog (readConfig w) (\<lambda>cfg.
              case (if component = Some [] then None else component) of
                None \<Rightarrow>
                  seq (list_components w)
                 (seq (console_log (js ''\<newline>Usage:''))
                      (console_log (js ''  npx @albatroz/ui add <component>'')))
              | Some name \<Rightarrow> addComponent w name cfg))))
       (\<lambda>error. console_error2 (js ''\<newline>Error:'') (message error))"

definition invalid_command :: "unit prog" where
  "invalid_command =
     seq (console_error (js ''\<newline>Error: Invalid command''))
    (seq (console_log (js ''\<newline>Available commands:''))
    (seq (console_log (js ''  - init''))
    (seq (console_log (js ''  - add [component]''))
         (process_exit 1))))"

text \<open>
  One run of the tool in a directory: the module is loaded, the action runs, and
  the process ends with the exit code, the files it leaves and its effects.  An
  error that no handler catches ends the process with code 1.
\<close>

definition exit_code :: "'a result \<Rightarrow> nat" where
  "exit_code r = (case r of Return x \<Rightarrow> 0 | Throw e \<Rightarrow> 1 | Exit n \<Rightarrow> n)"

definition run :: "unit prog \<Rightarrow> files \<Rightarrow> nat \<times> files \<times> event list" where
  "run action fs = (case action (module_loaded fs) of (r, p) \<Rightarrow> (exit_code r, files p, trace p))"

section \<open>Observing a run\<close>

text \<open>
  The merged dependencies of the manifest as a function of the files: what the two
  first statements of \<open>checkExpoProject\<close> and \<open>checkDependency\<close> compute
  (lemma \<open>merged_dependencies_eq\<close>).  The manifest declares a dependency for the
  program when the merged object has a truthy value under its name.
\<close>

definition manifest_dependencies :: "world \<Rightarrow> files \<Rightarrow> err + (jsstring \<rightharpoonup> jsval)" where
  "manifest_dependencies w fs =
     (case fs (js ''package.json'') of
        None \<Rightarrow> Inl (enoent (js ''package.json''))
      | Some text \<Rightarrow>
          (case JSON_parse w text of
             Inl m \<Rightarrow> Inl (Err m None)
           | Inr packageJson \<Rightarrow>
               (case get_prop packageJson (js ''dependencies'') of
                  Inl e \<Rightarrow> Inl e
                | Inr d \<Rightarrow>
                    (case get_prop packageJson (js ''devDependencies'') of
                       Inl e \<Rightarrow> Inl e
                     | Inr dd \<Rightarrow> Inr (spread2 d dd)))))"

definition declares :: "world \<Rightarrow> files \<Rightarrow> jsstring \<Rightarrow> bool" where
  "declares w fs dep =
     (case manifest_dependencies w fs of
        Inl e \<Rightarrow> False
      | Inr deps \<Rightarrow> truthy (lookup deps dep))"

definition logged :: "proc \<Rightarrow> event list \<Rightarrow> proc" where
  "logged p es = p\<lparr>trace := trace p @ es\<rparr>"

text \<open>What the validator prints before it ends the process.\<close>

definition validator_failure :: "world \<Rightarrow> files \<Rightarrow> event list" where
  "validator_failure w fs =
     ReadFile (js ''package.json'') #
     (case manifest_dependencies w fs of
        Inl e \<Rightarrow>
          [Stderr (js ''\<newline>Error: Could not find package.json''),
           Stdout (js ''\<newline>Please make sure you are in the root of your project.'')]
      | Inr m \<Rightarrow>
          [Stderr (js ''\<newline>Error: This is not an Expo project''),
           Stdout (js ''\<newline>At this moment, we only support Expo projects.''),
           Stdout (js ''\<newline>Please create a new project using:''),
           Stdout (js ''\<newline>  npx create-expo-app@latest'')])"

text \<open>The shell command of the installation and the text of the saved configuration.\<close>

definition install_line :: "world \<Rightarrow> jsstring" where
  "install_line w =
     template w (install_command (Some (prompt_choice w))) @ js '' lucide-react-native''"

definition config_text :: "world \<Rightarrow> bool \<Rightarrow> bool \<Rightarrow> jsstring" where
  "config_text w e l =
     JSON_stringify w
       (config_json (baseUrl DEFAULT_CONFIG) \<lparr>expo = e, lucide_react_native = l\<rparr>)"

text \<open>The requests, file writes, commands and prompts among the effects of a run.\<close>

fun http_request :: "event \<Rightarrow> jsstring list" where
  "http_request (HttpGet url) = [url]"
| "http_request e = []"

fun file_write :: "event \<Rightarrow> (jsstring \<times> jsstring) list" where
  "file_write (WriteFile path s) = [(path, s)]"
| "file_write e = []"

fun command_run :: "event \<Rightarrow> jsstring list" where
  "command_run (Exec cmd) = [cmd]"
| "command_run e = []"

fun prompt_shown :: "event \<Rightarrow> jsstring list" where
  "prompt_shown (Prompt question) = [question]"
| "prompt_shown e = []"

fun file_read :: "event \<Rightarrow> jsstring list" where
  "file_read (ReadFile path) = [path]"
| "file_read e = []"

definition http_requests :: "event list \<Rightarrow> jsstring list" where
  "http_requests es = concat (map http_request es)"

definition file_writes :: "event list \<Rightarrow> (jsstring \<times> jsstring) list" where
  "file_writes es = concat (map file_write es)"

definition commands_run :: "event list \<Rightarrow> jsstring list" where
  "commands_run es = concat (map command_run es)"

definition prompts_shown :: "event list \<Rightarrow> jsstring list" where
  "prompts_shown es = concat (map prompt_shown es)"

definition file_reads :: "event list \<Rightarrow> jsstring list" where
  "file_reads es = concat (map file_read es)"

section \<open>A sample world\<close>

text \<open>
  The case conversion of ECMAScript: the string is read as code points (a high
  surrogate followed by a low one is a single code point), each code point is mapped
  and the result is encoded again.  The mapping given here is that of two blocks of
  Unicode only, Basic Latin and Deseret.
\<close>

definition is_high_surrogate :: "16 word \<Rightarrow> bool" where
  "is_high_surrogate u = (0xD800 \<le> u \<and> u \<le> 0xDBFF)"

definition is_low_surrogate :: "16 word \<Rightarrow> bool" where
  "is_low_surrogate u = (0xDC00 \<le> u \<and> u \<le> 0xDFFF)"

fun code_points :: "jsstring \<Rightarrow> nat list" where
  "code_points (u # v # us) =
     (if is_high_surrogate u \<and> is_low_surrogate v
      then (0x10000 + (unat u - 0xD800) * 0x400 + (unat v - 0xDC00)) # code_points us
      else unat u # code_points (v # us))"
| "code_points [u] = [unat u]"
| "code_points [] = []"

definition utf16 :: "nat \<Rightarrow> jsstring" where
  "utf16 cp =
     (if cp < 0x10000 then [of_nat cp]
      else [of_nat (0xD800 + (cp - 0x10000) div 0x400),
            of_nat (0xDC00 + (cp - 0x10000) mod 0x400)])"

definition lower_code_point :: "nat \<Rightarrow> nat" where
  "lower_code_point cp =
     (if 0x41 \<le> cp \<and> cp \<le> 0x5A then cp + 0x20
      else if 0x10400 \<le> cp \<and> cp \<le> 0x10427 then cp + 0x28
      else cp)"

definition lower_by_code_point :: "jsstring \<Rightarrow> jsstring" where
  "lower_by_code_point s = concat (map (\<lambda>cp. utf16 (lower_code_point cp)) (code_points s))"

text \<open>Three manifests and the configuration that a successful initialisation saves.\<close>

definition sample_manifest_text :: jsstring where
  \<open>sample_manifest_text =
     js ''{"dependencies":{"expo":"1.0.0","lucide-react-native":"2.0.0"}}''\<close>

definition sample_manifest :: jsval where
  "sample_manifest =
     JObj [(js ''dependencies'',
            JObj [(js ''expo'', JStr (js ''1.0.0'')),
                  (js ''lucide-react-native'', JStr (js ''2.0.0''))])]"

definition expo_only_text :: jsstring where
  \<open>expo_only_text = js ''{"dependencies":{"expo":"1.0.0"}}''\<close>

definition expo_only_manifest :: jsval where
  "expo_only_manifest = JObj [(js ''dependencies'', JObj [(js ''expo'', JStr (js ''1.0.0''))])]"

definition plain_manifest_text :: jsstring where
  \<open>plain_manifest_text = js ''{"dependencies":{"react":"18.0.0"}}''\<close>

definition plain_manifest :: jsval where
  "plain_manifest = JObj [(js ''dependencies'', JObj [(js ''react'', JStr (js ''18.0.0''))])]"

definition saved_config_text :: jsstring where
  \<open>saved_config_text =
     js ''{\<newline>  "baseUrl": "https://raw.githubusercontent.com/eugustavo/albatroz/refs/heads/main/src/components",\<newline>  "dependencies": {\<newline>    "expo": true,\<newline>    "lucide-react-native": true\<newline>  }\<newline>}''\<close>

definition saved_config :: jsval where
  "saved_config =
     config_json (baseUrl DEFAULT_CONFIG) \<lparr>expo = True, lucide_react_native = True\<rparr>"

definition sample_parse :: "jsstring \<Rightarrow> jsstring + jsval" where
  "sample_parse text =
     (if text = sample_manifest_text then Inr sample_manifest
      else if text = expo_only_text then Inr expo_only_manifest
      else if text = plain_manifest_text then Inr plain_manifest
      else if text = saved_config_text then Inr saved_config
      else Inl (js ''Unexpected end of JSON input''))"

definition sample_stringify :: "jsval \<Rightarrow> jsstring" where
  "sample_stringify v = (if v = saved_config then saved_config_text else js ''{}'')"

definition alert_source :: jsstring where
  "alert_source = js ''export const Alert = ...;''"

definition sample_server :: "jsstring \<Rightarrow> http_reply" where
  "sample_server url =
     (if url = baseUrl DEFAULT_CONFIG @ js ''/alert.tsx'' then Reply 200 alert_source
      else if url = baseUrl DEFAULT_CONFIG @ js ''/card.tsx'' then Reply 500 (js ''Server Error'')
      else if url = baseUrl DEFAULT_CONFIG @ js ''/toast.tsx''
        then NoReply (js ''getaddrinfo ENOTFOUND raw.githubusercontent.com'')
      else Reply 404 (js ''404: Not Found''))"

text \<open>
  In the sample world the package manager succeeds and leaves the files, the
  manifest included, as they are; in the second one it fails.
\<close>

definition sample_world :: world where
  "sample_world =
     \<lparr>lower_non_ascii = lower_by_code_point,
      JSON_parse = sample_parse,
      JSON_stringify = sample_stringify,
      String_of = (\<lambda>v. js ''[object Object]''),
      http_get = sample_server,
      prompt_choice = Npm,
      execSync = (\<lambda>cmd fs. (None, fs))\<rparr>"

definition failing_install_world :: world where
  "failing_install_world =
     sample_world\<lparr>execSync :=
       (\<lambda>cmd fs. (Some (js ''Command failed: npm install lucide-react-native''), fs))\<rparr>"




definition sample_files :: files where
  "sample_files = [js ''package.json'' \<mapsto> sample_manifest_text]"

definition expo_only_files :: files where
  "expo_only_files = [js ''package.json'' \<mapsto> expo_only_text]"

definition plain_files :: files where
  "plain_files = [js ''package.json'' \<mapsto> plain_manifest_text]"

section \<open>Basic facts\<close>

subsection \<open>Strings\<close>

lemma unat_of_char: "unat (of_char c :: 16 word) = of_char c"
proof -
  have "(of_char c :: 16 word) = of_nat (of_char c)"
    by (simp add: of_nat_of_char)
  then have "unat (of_char c :: 16 word) = unat (of_nat (of_char c) :: 16 word)"
    by (rule arg_cong)
  also have "\<dots> = of_char c mod 2 ^ LENGTH(16)"
    by (rule unat_of_nat)
  also have "\<dots> = of_char c"
  proof (rule mod_less)
    have "(of_char c :: nat) < 256" by simp
    then show "(of_char c :: nat) < 2 ^ LENGTH(16)"
      by (rule order_less_trans) simp
  qed
  finally show ?thesis .
qed

lemma js_eq_iff [simp]: "js a = js b \<longleftrightarrow> a = b"
proof -
  have "inj (of_char :: char \<Rightarrow> 16 word)"
  proof (rule injI)
    fix c d :: char
    assume "(of_char c :: 16 word) = of_char d"
    then have "unat (of_char c :: 16 word) = unat (of_char d :: 16 word)" by simp
    then show "c = d" by (simp add: unat_of_char)
  qed
  then show ?thesis by (simp add: js_def)
qed

lemma js_Nil_iff [simp]: "js a = [] \<longleftrightarrow> a = []" "[] = js a \<longleftrightarrow> a = []"
  by (auto simp add: js_def)

lemma js_append [simp]: "js a @ js b = js (a @ b)" "js a @ js b @ x = js (a @ b) @ x"
  by (simp_all add: js_def)

lemma format_ascii:
  assumes "is_ascii name"
  shows "formatComponentName w name = toLowerCase w name"
proof (cases name)
  case Nil
  then show ?thesis by (simp add: formatComponentName_def toLowerCase_def is_ascii_def)
next
  case (Cons u us)
  with assms show ?thesis
    by (simp add: formatComponentName_def toLowerCase_def is_ascii_def charAt_def slice_def)
qed

lemma catalog_format:
  "map (formatComponentName w) AVAILABLE_COMPONENTS = AVAILABLE_COMPONENTS"
  by (simp add: AVAILABLE_COMPONENTS_def formatComponentName_def toLowerCase_def is_ascii_def
        charAt_def slice_def lower_unit_def is_upper_unit_def js_def)

subsection \<open>Projections of the effects\<close>

lemma http_requests_simps [simp]:
  "http_requests [] = []"
  "http_requests (e # es) = http_request e @ http_requests es"
  "http_requests (es @ es') = http_requests es @ http_requests es'"
  by (simp_all add: http_requests_def)

lemma file_writes_simps [simp]:
  "file_writes [] = []"
  "file_writes (e # es) = file_write e @ file_writes es"
  "file_writes (es @ es') = file_writes es @ file_writes es'"
  by (simp_all add: file_writes_def)

lemma commands_run_simps [simp]:
  "commands_run [] = []"
  "commands_run (e # es) = command_run e @ commands_run es"
  "commands_run (es @ es') = commands_run es @ commands_run es'"
  by (simp_all add: commands_run_def)

lemma prompts_shown_simps [simp]:
  "prompts_shown [] = []"
  "prompts_shown (e # es) = prompt_shown e @ prompts_shown es"
  "prompts_shown (es @ es') = prompts_shown es @ prompts_shown es'"
  by (simp_all add: prompts_shown_def)

lemma file_reads_simps [simp]:
  "file_reads [] = []"
  "file_reads (e # es) = file_read e @ file_reads es"
  "file_reads (es @ es') = file_reads es @ file_reads es'"
  by (simp_all add: file_reads_def)

subsection \<open>Running the statements\<close>

lemmas prog_defs = ret_def throw_def process_exit_def bind_prog_def seq_def try_catch_def
  lift_def emit_def console_log_def console_error_def console_error2_def

lemma logged_simps [simp]:
  "files (logged p es) = files p" "heap (logged p es) = heap p"
  "trace (logged p es) = trace p @ es" "logged (logged p es) es' = logged p (es @ es')"
  by (simp_all add: logged_def)

lemma merged_dependencies_eq:
  "merged_dependencies w p =
     ((case manifest_dependencies w (files p) of Inl e \<Rightarrow> Throw e | Inr m \<Rightarrow> Return m),
      logged p [ReadFile (js ''package.json'')])"
  by (simp add: merged_dependencies_def manifest_dependencies_def readFileSync_def json_parse_def
      prog_defs logged_def Let_def split: option.splits sum.splits)

lemma checkDependency_eq:
  "checkDependency w dep p = (Return (declares w (files p) dep), logged p [ReadFile (js ''package.json'')])"
  by (simp add: checkDependency_def declares_def merged_dependencies_eq try_catch_def bind_prog_def ret_def
      split: sum.splits)

lemma checkExpoProject_pass:
  "declares w (files p) (js ''expo'') \<Longrightarrow>
     checkExpoProject w p = (Return True, logged p [ReadFile (js ''package.json'')])"
  by (simp add: checkExpoProject_def declares_def merged_dependencies_eq try_catch_def bind_prog_def ret_def
      split: sum.splits)

lemma checkExpoProject_fail:
  "\<not> declares w (files p) (js ''expo'') \<Longrightarrow>
     checkExpoProject w p = (Exit 1, logged p (validator_failure w (files p)))"
  by (cases "manifest_dependencies w (files p)")
    (simp_all add: checkExpoProject_def declares_def merged_dependencies_eq prog_defs logged_def
       validator_failure_def)

lemma axios_get_eq:
  "axios_get w url p =
     ((case http_get w url of
         Reply st body \<Rightarrow>
           if 200 \<le> st \<and> st < 300 then Return (response_data w body)
           else Throw (Err (js ''Request failed with status code '' @ decimal st) (Some st))
       | NoReply m \<Rightarrow> Throw (Err m None)),
      logged p [HttpGet url])"
  by (cases "http_get w url") (simp_all add: axios_get_def prog_defs logged_def)

lemma list_components_eq:
  "list_components w p =
     (Return (), p\<lparr>trace := trace p @
        [Stdout (js ''\<newline>Available components:''),
         Stdout (js ''  - alert''), Stdout (js ''  - avatar''),
         Stdout (js ''  - card''), Stdout (js ''  - toast'')]\<rparr>)"
  using catalog_format [of w]
  by (simp add: list_components_def AVAILABLE_COMPONENTS_def prog_defs js_def)

subsection \<open>The four ways in which \<open>initializeProject\<close> ends\<close>

lemma initializeProject_exit:
  assumes "\<not> declares w (files p) (js ''expo'')"
  shows "initializeProject w p =
           (Exit 1, logged p (Stdout (js ''\<newline>Initializing Albatroz UI...'') #
                              validator_failure w (files p)))"
  using assms
  by (simp add: initializeProject_def checkExpoProject_fail seq_def bind_prog_def console_log_def emit_def
       logged_def)

lemma initializeProject_present:
  assumes "declares w (files p) (js ''expo'')" and "declares w (files p) (js ''lucide-react-native'')"
  shows "initializeProject w p =
    (Return True,
     p\<lparr>heap := (heap p)(default_dependencies := (heap p default_dependencies)\<lparr>expo := True, lucide_react_native := True\<rparr>),
       files := (files p)(CONFIG_FILE \<mapsto> config_text w True True),
       trace := trace p @
         [Stdout (js ''\<newline>Initializing Albatroz UI...''),
          ReadFile (js ''package.json''), ReadFile (js ''package.json''), ReadFile (js ''package.json''),
          SpinStart (js ''Checking and installing dependencies...''),
          WriteFile CONFIG_FILE (config_text w True True),
          SpinSucceed (js ''Project initialized successfully!'')]\<rparr>)"
  using assms
  apply (simp add: initializeProject_def install_and_save_def saveConfig_def)
  apply (simp add: seq_def bind_prog_def console_log_def emit_def checkExpoProject_pass checkDependency_eq
       set_expo_def set_lucide_react_native_def get_deps_def ret_def try_catch_def writeFileSync_def
       spread_config_def DEFAULT_CONFIG_def config_text_def config_json_def logged_def Let_def)
  done

lemma initializeProject_install:
  assumes "declares w (files p) (js ''expo'')"
    and "\<not> declares w (files p) (js ''lucide-react-native'')"
    and "execSync w (install_line w) (files p) = (None, fs)"
  shows "initializeProject w p =
    (Return True,
     p\<lparr>heap := (heap p)(default_dependencies := (heap p default_dependencies)\<lparr>expo := True, lucide_react_native := True\<rparr>),
       files := fs(CONFIG_FILE \<mapsto> config_text w True True),
       trace := trace p @
         [Stdout (js ''\<newline>Initializing Albatroz UI...''),
          ReadFile (js ''package.json''), ReadFile (js ''package.json''), ReadFile (js ''package.json''),
          Prompt (js ''Which package manager do you want to use?''),
          SpinStart (js ''Checking and installing dependencies...''),
          Exec (install_line w),
          WriteFile CONFIG_FILE (config_text w True True),
          SpinSucceed (js ''Project initialized successfully!'')]\<rparr>)"
  using assms
  apply (simp add: initializeProject_def install_and_save_def saveConfig_def)
  apply (simp add: seq_def bind_prog_def console_log_def emit_def checkExpoProject_pass checkDependency_eq
       set_expo_def set_lucide_react_native_def get_deps_def ret_def try_catch_def writeFileSync_def
       spread_config_def DEFAULT_CONFIG_def config_text_def config_json_def logged_def Let_def
       inquirer_prompt_def exec_def install_line_def)
  done

lemma initializeProject_install_failed:
  assumes "declares w (files p) (js ''expo'')"
    and "\<not> declares w (files p) (js ''lucide-react-native'')"
    and "execSync w (install_line w) (files p) = (Some m, fs)"
  shows "initializeProject w p =
    (Return False,
     p\<lparr>heap := (heap p)(default_dependencies := (heap p default_dependencies)\<lparr>expo := True, lucide_react_native := False\<rparr>),
       files := fs,
       trace := trace p @
         [Stdout (js ''\<newline>Initializing Albatroz UI...''),
          ReadFile (js ''package.json''), ReadFile (js ''package.json''), ReadFile (js ''package.json''),
          Prompt (js ''Which package manager do you want to use?''),
          SpinStart (js ''Checking and installing dependencies...''),
          Exec (install_line w),
          SpinFail (js ''Failed to initialize project''),
          Stderr (js ''\<newline>Error details:'' @ js '' '' @ m)]\<rparr>)"
  using assms
  apply (simp add: initializeProject_def install_and_save_def saveConfig_def init_failed_def)
  apply (simp add: seq_def bind_prog_def console_log_def emit_def checkExpoProject_pass checkDependency_eq
       set_expo_def set_lucide_react_native_def get_deps_def ret_def try_catch_def writeFileSync_def
       spread_config_def DEFAULT_CONFIG_def config_text_def config_json_def logged_def Let_def
       inquirer_prompt_def exec_def install_line_def console_error2_def init_failed_def)
  done

lemma fst_initializeProject:
  assumes "declares w (files p) (js ''expo'')"
  shows "\<exists>b. fst (initializeProject w p) = Return b"
proof (cases "declares w (files p) (js ''lucide-react-native'')")
  case True
  with assms show ?thesis by (auto simp add: initializeProject_present)
next
  case False
  obtain r fs where ex: "execSync w (install_line w) (files p) = (r, fs)"
    by (cases "execSync w (install_line w) (files p)")
  show ?thesis
  proof (cases r)
    case None
    with assms False ex show ?thesis by (auto simp add: initializeProject_install)
  next
    case (Some m)
    with assms False ex show ?thesis by (auto simp add: initializeProject_install_failed)
  qed
qed

subsection \<open>The three ways in which \<open>addComponent\<close> ends\<close>

lemma addComponent_unavailable:
  assumes "toLowerCase w name \<notin> set AVAILABLE_COMPONENTS"
  shows "addComponent w name cfg p =
     (Return (), p\<lparr>trace := trace p @
        [SpinStart (js ''Adding component...''),
         SpinFail (js ''Component not available''),
         Stdout (js ''\<newline>Available components:''),
         Stdout (js ''  - alert''), Stdout (js ''  - avatar''),
         Stdout (js ''  - card''), Stdout (js ''  - toast'')]\<rparr>)"
  using assms
  by (simp add: addComponent_def list_components_eq prog_defs Let_def)

lemma response_data_plain:
  assumes "strip_bom body = body" and "JSON_parse w body = Inl m"
  shows "response_data w body = JStr body"
  using assms by (simp add: response_data_def)

lemma addComponent_downloaded:
  assumes "toLowerCase w name \<in> set AVAILABLE_COMPONENTS"
    and "get_prop cfg (js ''baseUrl'') = Inr base"
    and "http_get w (template w base @ js ''/'' @ toLowerCase w name @ js ''.tsx'') = Reply st body"
    and "200 \<le> st" and "st < 300"
    and "response_data w body = JStr s"
  shows "addComponent w name cfg p =
     (Return (),
      p\<lparr>files := (files p)(js ''src/components/ui/'' @ formatComponentName w name @ js ''.tsx'' \<mapsto> s),
        trace := trace p @
        [SpinStart (js ''Adding component...''),
         HttpGet (template w base @ js ''/'' @ toLowerCase w name @ js ''.tsx''),
         MkDirs (js ''src/components/ui''),
         WriteFile (js ''src/components/ui/'' @ formatComponentName w name @ js ''.tsx'') s,
         SpinSucceed (js ''Component '' @ formatComponentName w name @ js '' added successfully!''),
         Stdout (js ''\<newline>Location: src/components/ui/'' @ formatComponentName w name @ js ''.tsx'')]\<rparr>)"
proof -
  have path: "path_join (js ''src/components/ui'') (formatComponentName w name @ js ''.tsx'')
      = js ''src/components/ui/'' @ formatComponentName w name @ js ''.tsx''"
    by (simp add: path_join_def js_def)
  show ?thesis
    using assms
    by (simp add: addComponent_def downloadComponent_def axios_get_def ensureDir_def writeFile_def
        writeFileSync_def prog_defs Let_def path)
qed



lemma addComponent_rejected:
  assumes "toLowerCase w name \<in> set AVAILABLE_COMPONENTS"
    and "get_prop cfg (js ''baseUrl'') = Inr base"
    and "fst (axios_get w (template w base @ js ''/'' @ toLowerCase w name @ js ''.tsx'') p') = Throw e"
  shows "addComponent w name cfg p =
     (Return (),
      p\<lparr>trace := trace p @
        [SpinStart (js ''Adding component...''),
         HttpGet (template w base @ js ''/'' @ toLowerCase w name @ js ''.tsx''),
         SpinFail (js ''Failed to add component '' @ formatComponentName w name),
         Stderr (js ''\<newline>Error details:'' @ js '' '' @
            (if response_status e = Some 404 then js ''Component not found in repository''
             else message e))]\<rparr>)"
  using assms
  by (simp add: addComponent_def downloadComponent_def prog_defs Let_def axios_get_eq logged_def)

lemma addComponent_returns: "fst (addComponent w name cfg p) = Return ()"
  by (simp add: addComponent_def downloadComponent_def axios_get_def ensureDir_def writeFile_def
        writeFileSync_def list_components_eq prog_defs Let_def
        split: prod.splits sum.splits http_reply.splits result.splits jsval.splits)

subsection \<open>The command \<open>add\<close>\<close>

lemma add_action_bootstrap:
  assumes "declares w (files p) (js ''expo'')" and "files p CONFIG_FILE = None"
  shows "add_action w component p =
     (Return (),
      logged (snd (initializeProject w (logged p [ReadFile (js ''package.json'')])))
        [Stdout (js ''\<newline>Please run init command first.'')])"
proof -
  let ?p = "logged p [ReadFile (js ''package.json'')]"
  have "declares w (files ?p) (js ''expo'')" using assms by simp
  then obtain b where "fst (initializeProject w ?p) = Return b"
    using fst_initializeProject by blast
  then obtain q where q: "initializeProject w ?p = (Return b, q)"
    by (cases "initializeProject w ?p") simp
  show ?thesis
    using assms q
    by (simp add: add_action_def ensureConfig_def existsSync_def checkExpoProject_pass prog_defs
        logged_def)
qed

lemma add_action_ready:
  assumes "declares w (files p) (js ''expo'')"
    and "files p CONFIG_FILE = Some content" and "JSON_parse w content = Inr cfg" and "name \<noteq> []"
  shows "add_action w (Some name) p =
     addComponent w name cfg (logged p [ReadFile (js ''package.json''), ReadFile CONFIG_FILE])"
proof -
  let ?p = "logged p [ReadFile (js ''package.json''), ReadFile CONFIG_FILE]"
  obtain q where q: "addComponent w name cfg ?p = (Return (), q)"
    using addComponent_returns [of w name cfg ?p] by (cases "addComponent w name cfg ?p") simp
  show ?thesis
    using assms q
    by (simp add: add_action_def ensureConfig_def existsSync_def checkExpoProject_pass prog_defs
        readConfig_def readFileSync_def json_parse_def logged_def Let_def)
qed

subsection \<open>Further facts, and the sample world\<close>

lemma sample_lower [simp]:
  "toLowerCase w (js ''Alert'') = js ''alert''"
  "toLowerCase w (js ''alert'') = js ''alert''"
  "toLowerCase w (js ''card'') = js ''card''"
  "toLowerCase w (js ''toast'') = js ''toast''"
  "toLowerCase w (js ''avatar'') = js ''avatar''"
  "toLowerCase w (js ''button'') = js ''button''"
  by (simp_all add: toLowerCase_def is_ascii_def lower_unit_def is_upper_unit_def js_def)

lemma sample_format [simp]:
  "formatComponentName w (js ''Alert'') = js ''alert''"
  "formatComponentName w (js ''alert'') = js ''alert''"
  "formatComponentName w (js ''card'') = js ''card''"
  "formatComponentName w (js ''toast'') = js ''toast''"
  "formatComponentName w (js ''avatar'') = js ''avatar''"
proof -
  have "is_ascii (js ''Alert'')" "is_ascii (js ''alert'')" "is_ascii (js ''card'')"
    "is_ascii (js ''toast'')" "is_ascii (js ''avatar'')"
    by (simp_all add: is_ascii_def js_def)
  then show
    "formatComponentName w (js ''Alert'') = js ''alert''"
    "formatComponentName w (js ''alert'') = js ''alert''"
    "formatComponentName w (js ''card'') = js ''card''"
    "formatComponentName w (js ''toast'') = js ''toast''"
    "formatComponentName w (js ''avatar'') = js ''avatar''"
    by (simp_all add: format_ascii)
qed

lemma sample_declares:
  "declares sample_world sample_files (js ''expo'')"
  "declares sample_world sample_files (js ''lucide-react-native'')"
  by (simp_all add: declares_def manifest_dependencies_def sample_world_def sample_files_def
      sample_parse_def sample_manifest_def spread2_def lookup_def)

lemma config_file_neq [simp]:
  "CONFIG_FILE \<noteq> js ''package.json''" "js ''package.json'' \<noteq> CONFIG_FILE"
  by (simp_all add: CONFIG_FILE_def)

lemma declares_cong:
  "fs (js ''package.json'') = fs' (js ''package.json'') \<Longrightarrow> declares w fs dep = declares w fs' dep"
  by (simp add: declares_def manifest_dependencies_def)

lemma sample_replies:
  "http_get sample_world (baseUrl DEFAULT_CONFIG @ js ''/alert.tsx'') = Reply 200 alert_source"
  "http_get sample_world (baseUrl DEFAULT_CONFIG @ js ''/avatar.tsx'') = Reply 404 (js ''404: Not Found'')"
  "http_get sample_world (baseUrl DEFAULT_CONFIG @ js ''/card.tsx'') = Reply 500 (js ''Server Error'')"
  "http_get sample_world (baseUrl DEFAULT_CONFIG @ js ''/toast.tsx'') =
     NoReply (js ''getaddrinfo ENOTFOUND raw.githubusercontent.com'')"
  by (simp_all add: sample_world_def sample_server_def DEFAULT_CONFIG_def)

lemma saved_config_baseUrl:
  "get_prop saved_config (js ''baseUrl'') = Inr (JStr (baseUrl DEFAULT_CONFIG))"
  by (simp add: saved_config_def config_json_def)

lemma not_declared:
  assumes "case manifest_dependencies w fs of Inl e \<Rightarrow> True | Inr deps \<Rightarrow> deps dep = None"
  shows "\<not> declares w fs dep"
  using assms by (simp add: declares_def lookup_def split: sum.splits)

lemma file_writes_validator_failure [simp]:
  "file_writes (validator_failure w fs) = []"
  by (cases "manifest_dependencies w fs") (simp_all add: validator_failure_def)

lemma run_init_action:
  "run (init_action w) fs =
     (case initializeProject w (module_loaded fs) of
        (r, p) \<Rightarrow> (exit_code r, files p, trace p))"
  by (cases "initializeProject w (module_loaded fs)"; cases "fst (initializeProject w (module_loaded fs))")
     (simp_all add: run_def init_action_def seq_def bind_prog_def ret_def exit_code_def)

lemma plain_manifest_dependencies:
  "manifest_dependencies sample_world plain_files =
     Inr (spread2 (JObj [(js ''react'', JStr (js ''18.0.0''))]) JUndefined)"
  by (simp add: manifest_dependencies_def sample_world_def plain_files_def sample_parse_def
      plain_manifest_def sample_manifest_text_def expo_only_text_def plain_manifest_text_def)

lemma expo_only_declares:
  "declares sample_world expo_only_files (js ''expo'')"
  "\<not> declares sample_world expo_only_files (js ''lucide-react-native'')"
  by (simp_all add: declares_def manifest_dependencies_def sample_world_def expo_only_files_def
      sample_parse_def expo_only_manifest_def spread2_def lookup_def
      sample_manifest_text_def expo_only_text_def)

lemma declares_with_config [simp]:
  "declares w (fs(CONFIG_FILE \<mapsto> s)) dep = declares w fs dep"
  by (rule declares_cong) simp

lemma declares_module_loaded [simp]:
  "declares w (files (module_loaded fs)) dep = declares w fs dep"
  by (simp add: module_loaded_def)

lemma declares_failing_install_world [simp]:
  "declares failing_install_world fs dep = declares sample_world fs dep"
proof -
  have same: "JSON_parse failing_install_world = JSON_parse sample_world"
    by (simp add: failing_install_world_def)
  show ?thesis
    unfolding declares_def manifest_dependencies_def same by (rule refl)
qed

lemma sample_install_line [simp]:
  "install_line sample_world = js ''npm install lucide-react-native''"
  "install_line failing_install_world = js ''npm install lucide-react-native''"
  by (simp_all add: install_line_def install_command_def sample_world_def failing_install_world_def)

lemma sample_config_text [simp]:
  "config_text sample_world True True = saved_config_text"
  by (simp add: config_text_def sample_world_def sample_stringify_def saved_config_def)

lemma sample_parse_saved_config:
  "JSON_parse sample_world saved_config_text = Inr saved_config"
  by (simp add: sample_world_def sample_parse_def saved_config_text_def sample_manifest_text_def
      expo_only_text_def plain_manifest_text_def)

lemma sample_execSync [simp]:
  "execSync sample_world cmd fs = (None, fs)"
  "execSync failing_install_world cmd fs =
     (Some (js ''Command failed: npm install lucide-react-native''), fs)"
  by (simp_all add: sample_world_def failing_install_world_def)

lemma module_loaded_simps [simp]:
  "files (module_loaded fs) = fs" "trace (module_loaded fs) = []"
  "heap (module_loaded fs) a = \<lparr>expo = False, lucide_react_native = False\<rparr>"
  by (simp_all add: module_loaded_def)

lemma add_action_exit:
  assumes "\<not> declares w (files p) (js ''expo'')"
  shows "add_action w component p = (Exit 1, logged p (validator_failure w (files p)))"
  using assms
  by (simp add: add_action_def checkExpoProject_fail seq_def bind_prog_def try_catch_def)

lemma initializeProject_effects:
  assumes "declares w (files p) (js ''expo'')"
  shows "http_requests (trace (snd (initializeProject w p))) = http_requests (trace p) \<and>
         file_reads (trace (snd (initializeProject w p))) =
           file_reads (trace p) @ [js ''package.json'', js ''package.json'', js ''package.json'']"
proof (cases "declares w (files p) (js ''lucide-react-native'')")
  case True
  with assms show ?thesis by (simp add: initializeProject_present)
next
  case False
  obtain r fs where ex: "execSync w (install_line w) (files p) = (r, fs)"
    by (cases "execSync w (install_line w) (files p)")
  show ?thesis
    using assms False ex
    by (cases r) (simp_all add: initializeProject_install initializeProject_install_failed)
qed

lemma plain_declares:
  "\<not> declares sample_world plain_files (js ''expo'')"
  by (rule not_declared) (simp add: plain_manifest_dependencies spread2_def)

lemma scenario_declares:
  assumes "fs (js ''package.json'') = Some manifest" and "JSON_parse w manifest = Inr sample_manifest"
  shows "declares w fs (js ''expo'')" and "declares w fs (js ''lucide-react-native'')"
  using assms
  by (simp_all add: declares_def manifest_dependencies_def sample_manifest_def spread2_def
      lookup_def)

lemma scenario_runs:
  assumes "fs (js ''package.json'') = Some manifest"
    and "JSON_parse w manifest = Inr sample_manifest"
    and "JSON_parse w (config_text w True True) =
           Inr (config_json (baseUrl DEFAULT_CONFIG) \<lparr>expo = True, lucide_react_native = True\<rparr>)"
    and "http_get w (baseUrl DEFAULT_CONFIG @ js ''/alert.tsx'') = Reply 200 body"
    and "strip_bom body = body"
    and "JSON_parse w body = Inl m"
  shows "run (init_action w) fs =
           (0, fs(CONFIG_FILE \<mapsto> config_text w True True),
            [Stdout (js ''\<newline>Initializing Albatroz UI...''),
             ReadFile (js ''package.json''), ReadFile (js ''package.json''),
             ReadFile (js ''package.json''),
             SpinStart (js ''Checking and installing dependencies...''),
             WriteFile CONFIG_FILE (config_text w True True),
             SpinSucceed (js ''Project initialized successfully!'')])"
    and "run (add_action w (Some (js ''alert''))) (fs(CONFIG_FILE \<mapsto> config_text w True True)) =
           (0, fs(CONFIG_FILE \<mapsto> config_text w True True,
                  js ''src/components/ui/alert.tsx'' \<mapsto> body),
            [ReadFile (js ''package.json''), ReadFile CONFIG_FILE,
             SpinStart (js ''Adding component...''),
             HttpGet (baseUrl DEFAULT_CONFIG @ js ''/alert.tsx''),
             MkDirs (js ''src/components/ui''),
             WriteFile (js ''src/components/ui/alert.tsx'') body,
             SpinSucceed (js ''Component alert added successfully!''),
             Stdout (js ''\<newline>Location: src/components/ui/alert.tsx'')])"
proof -
  note d = scenario_declares [where fs = fs, OF assms(1,2)]
  show "run (init_action w) fs =
           (0, fs(CONFIG_FILE \<mapsto> config_text w True True),
            [Stdout (js ''\<newline>Initializing Albatroz UI...''),
             ReadFile (js ''package.json''), ReadFile (js ''package.json''),
             ReadFile (js ''package.json''),
             SpinStart (js ''Checking and installing dependencies...''),
             WriteFile CONFIG_FILE (config_text w True True),
             SpinSucceed (js ''Project initialized successfully!'')])"
    using d by (simp add: run_init_action initializeProject_present exit_code_def)
  let ?fs = "fs(CONFIG_FILE \<mapsto> config_text w True True)"
  let ?cfg = "config_json (baseUrl DEFAULT_CONFIG) \<lparr>expo = True, lucide_react_native = True\<rparr>"
  let ?p = "logged (module_loaded ?fs) [ReadFile (js ''package.json''), ReadFile CONFIG_FILE]"
  have ready: "add_action w (Some (js ''alert'')) (module_loaded ?fs) =
      addComponent w (js ''alert'') ?cfg ?p"
    using d assms(3)
    by (intro add_action_ready [where content = "config_text w True True"]) simp_all
  have base: "get_prop ?cfg (js ''baseUrl'') = Inr (JStr (baseUrl DEFAULT_CONFIG))"
    by (simp add: config_json_def)
  have reply: "http_get w (template w (JStr (baseUrl DEFAULT_CONFIG)) @ js ''/'' @
      toLowerCase w (js ''alert'') @ js ''.tsx'') = Reply 200 body"
    using assms(4) by simp
  have "toLowerCase w (js ''alert'') \<in> set AVAILABLE_COMPONENTS"
    by (simp add: AVAILABLE_COMPONENTS_def)
  from addComponent_downloaded [OF this base reply _ _ response_data_plain [OF assms(5,6)], of ?p]
  show "run (add_action w (Some (js ''alert''))) ?fs =
           (0, fs(CONFIG_FILE \<mapsto> config_text w True True,
                  js ''src/components/ui/alert.tsx'' \<mapsto> body),
            [ReadFile (js ''package.json''), ReadFile CONFIG_FILE,
             SpinStart (js ''Adding component...''),
             HttpGet (baseUrl DEFAULT_CONFIG @ js ''/alert.tsx''),
             MkDirs (js ''src/components/ui''),
             WriteFile (js ''src/components/ui/alert.tsx'') body,
             SpinSucceed (js ''Component alert added successfully!''),
             Stdout (js ''\<newline>Location: src/components/ui/alert.tsx'')])"
    by (simp add: run_def ready exit_code_def)
qed

lemma strip_bom_js [simp]: "strip_bom (js s) = js s"
proof (cases s)
  case Nil
  then show ?thesis by (simp add: strip_bom_def js_def)
next
  case (Cons c cs)
  have "unat (of_char c :: 16 word) < 256"
    by (simp add: unat_of_char)
  then have "(of_char c :: 16 word) \<noteq> 0xFEFF"
    by auto
  with Cons show ?thesis
    by (simp add: strip_bom_def js_def)
qed

lemma sample_parse_alert_source:
  "JSON_parse sample_world alert_source = Inl (js ''Unexpected end of JSON input'')"
  by (simp add: sample_world_def sample_parse_def alert_source_def sample_manifest_text_def
      expo_only_text_def plain_manifest_text_def saved_config_text_def)

lemma sample_scenario:
  "sample_files (js ''package.json'') = Some sample_manifest_text"
  "JSON_parse sample_world sample_manifest_text = Inr sample_manifest"
  "JSON_parse sample_world (config_text sample_world True True) =
     Inr (config_json (baseUrl DEFAULT_CONFIG) \<lparr>expo = True, lucide_react_native = True\<rparr>)"
  "http_get sample_world (baseUrl DEFAULT_CONFIG @ js ''/alert.tsx'') = Reply 200 alert_source"
  "strip_bom alert_source = alert_source"
  "JSON_parse sample_world alert_source = Inl (js ''Unexpected end of JSON input'')"
proof -
  show "sample_files (js ''package.json'') = Some sample_manifest_text"
    by (simp add: sample_files_def)
  show "JSON_parse sample_world sample_manifest_text = Inr sample_manifest"
    by (simp add: sample_world_def sample_parse_def)
  show "JSON_parse sample_world (config_text sample_world True True) =
     Inr (config_json (baseUrl DEFAULT_CONFIG) \<lparr>expo = True, lucide_react_native = True\<rparr>)"
    using sample_parse_saved_config by (simp add: saved_config_def)
  show "http_get sample_world (baseUrl DEFAULT_CONFIG @ js ''/alert.tsx'') = Reply 200 alert_source"
    by (rule sample_replies(1))
  show "strip_bom alert_source = alert_source"
    by (simp add: alert_source_def)
  show "JSON_parse sample_world alert_source = Inl (js ''Unexpected end of JSON input'')"
    by (rule sample_parse_alert_source)
qed


lemma lower_unit_not_upper: "\<not> is_upper_unit (lower_unit u)"
  unfolding lower_unit_def is_upper_unit_def
  by (simp; unat_arith)

lemma lower_unit_ascii: "u < 0x80 \<Longrightarrow> lower_unit u < 0x80"
  unfolding lower_unit_def is_upper_unit_def
  by (simp; unat_arith)

lemma lower_unit_idem: "lower_unit (lower_unit u) = lower_unit u"
  using lower_unit_not_upper [of u] by (simp add: lower_unit_def [of "lower_unit u"])


lemma toLowerCase_ascii:
  assumes "is_ascii name"
  shows "toLowerCase w name = map lower_unit name" and "is_ascii (toLowerCase w name)"
  using assms
  by (simp_all add: toLowerCase_def is_ascii_def list_all_iff lower_unit_ascii)

section \<open>The component fetcher and writer\<close>




text \<open>
  Claim C3.  For an identifier whose lower-cased form is not in the catalog,
  \<open>addComponent\<close> reports \<open>Component not available\<close>, lists the four components
  of the catalog and returns normally; it sends no request and writes no file.  Run
  as the command \<open>add <id>\<close> in an initialised Expo project, with a non-empty
  identifier, the process ends with exit code 0 and leaves the files as they were.
\<close>

theorem unknown_component_rejected:
  assumes "toLowerCase w name \<notin> set AVAILABLE_COMPONENTS"
  shows "addComponent w name cfg p =
           (Return (),
            p\<lparr>trace := trace p @
              [SpinStart (js ''Adding component...''),
               SpinFail (js ''Component not available''),
               Stdout (js ''\<newline>Available components:''),
               Stdout (js ''  - alert''), Stdout (js ''  - avatar''),
               Stdout (js ''  - card''), Stdout (js ''  - toast'')]\<rparr>) \<and>
         http_requests (trace (snd (addComponent w name cfg p))) = http_requests (trace p) \<and>
         file_writes (trace (snd (addComponent w name cfg p))) = file_writes (trace p) \<and>
         files (snd (addComponent w name cfg p)) = files p \<and>
         (\<forall>fs content. declares w fs (js ''expo'') \<and> fs CONFIG_FILE = Some content \<and>
              JSON_parse w content = Inr cfg \<and> name \<noteq> [] \<longrightarrow>
            run (add_action w (Some name)) fs =
              (0, fs,
               [ReadFile (js ''package.json''), ReadFile CONFIG_FILE,
                SpinStart (js ''Adding component...''),
                SpinFail (js ''Component not available''),
                Stdout (js ''\<newline>Available components:''),
                Stdout (js ''  - alert''), Stdout (js ''  - avatar''),
                Stdout (js ''  - card''), Stdout (js ''  - toast'')]))"
proof -
  note unavailable = addComponent_unavailable [OF assms]
  have "run (add_action w (Some name)) fs =
              (0, fs,
               [ReadFile (js ''package.json''), ReadFile CONFIG_FILE,
                SpinStart (js ''Adding component...''),
                SpinFail (js ''Component not available''),
                Stdout (js ''\<newline>Available components:''),
                Stdout (js ''  - alert''), Stdout (js ''  - avatar''),
                Stdout (js ''  - card''), Stdout (js ''  - toast'')])"
    if "declares w fs (js ''expo'')" "fs CONFIG_FILE = Some content"
      "JSON_parse w content = Inr cfg" "name \<noteq> []" for fs content
    using that
    by (simp add: run_def add_action_ready [where content = content and cfg = cfg] unavailable
        module_loaded_def exit_code_def)
  then show ?thesis
    by (simp add: unavailable)
qed

theorem unknown_component_rejected_witness:
  "toLowerCase sample_world (js ''button'') \<notin> set AVAILABLE_COMPONENTS \<and>
   declares sample_world (sample_files(CONFIG_FILE \<mapsto> saved_config_text)) (js ''expo'') \<and>
   JSON_parse sample_world saved_config_text = Inr saved_config \<and>
   run (add_action sample_world (Some (js ''button'')))
     (sample_files(CONFIG_FILE \<mapsto> saved_config_text)) =
     (0, sample_files(CONFIG_FILE \<mapsto> saved_config_text),
      [ReadFile (js ''package.json''), ReadFile CONFIG_FILE,
       SpinStart (js ''Adding component...''),
       SpinFail (js ''Component not available''),
       Stdout (js ''\<newline>Available components:''),
       Stdout (js ''  - alert''), Stdout (js ''  - avatar''),
       Stdout (js ''  - card''), Stdout (js ''  - toast'')])"
proof -
  have a: "toLowerCase sample_world (js ''button'') \<notin> set AVAILABLE_COMPONENTS"
    by (simp add: AVAILABLE_COMPONENTS_def)
  have b: "declares sample_world (sample_files(CONFIG_FILE \<mapsto> saved_config_text)) (js ''expo'')"
    using sample_declares(1) by (simp add: declares_cong [of "sample_files(CONFIG_FILE \<mapsto> saved_config_text)" sample_files])
  have c: "JSON_parse sample_world saved_config_text = Inr saved_config"
    by (simp add: sample_world_def sample_parse_def saved_config_text_def sample_manifest_text_def
        expo_only_text_def plain_manifest_text_def)
  show ?thesis
    using unknown_component_rejected [OF a, of saved_config] a b c
    by simp
qed

text \<open>
  Claim C4.  For an identifier of the catalog, a reply with status 404 makes
  \<open>addComponent\<close> report the message \<open>Component not found in repository\<close>.
  Any other failure of the request, a status outside 2xx other than 404 or no
  reply at all, is reported with the message of its own error.  In each case the
  function returns normally.
\<close>

theorem not_found_is_a_distinct_error:
  assumes "toLowerCase w name \<in> set AVAILABLE_COMPONENTS"
    and "get_prop cfg (js ''baseUrl'') = Inr base"
    and "url = template w base @ js ''/'' @ toLowerCase w name @ js ''.tsx''"
  shows "(\<forall>body. http_get w url = Reply 404 body \<longrightarrow>
            addComponent w name cfg p =
              (Return (),
               p\<lparr>trace := trace p @
                 [SpinStart (js ''Adding component...''),
                  HttpGet url,
                  SpinFail (js ''Failed to add component '' @ formatComponentName w name),
                  Stderr (js ''\<newline>Error details: Component not found in repository'')]\<rparr>)) \<and>
         (\<forall>st body. http_get w url = Reply st body \<and> \<not> (200 \<le> st \<and> st < 300) \<and> st \<noteq> 404 \<longrightarrow>
            addComponent w name cfg p =
              (Return (),
               p\<lparr>trace := trace p @
                 [SpinStart (js ''Adding component...''),
                  HttpGet url,
                  SpinFail (js ''Failed to add component '' @ formatComponentName w name),
                  Stderr (js ''\<newline>Error details: Request failed with status code '' @
                          decimal st)]\<rparr>)) \<and>
         (\<forall>m. http_get w url = NoReply m \<longrightarrow>
            addComponent w name cfg p =
              (Return (),
               p\<lparr>trace := trace p @
                 [SpinStart (js ''Adding component...''),
                  HttpGet url,
                  SpinFail (js ''Failed to add component '' @ formatComponentName w name),
                  Stderr (js ''\<newline>Error details: '' @ m)]\<rparr>))"
proof (intro conjI allI impI)
  fix body
  assume "http_get w url = Reply 404 body"
  then have "fst (axios_get w url p) =
      Throw (Err (js ''Request failed with status code '' @ decimal 404) (Some 404))"
    by (simp add: axios_get_eq)
  from addComponent_rejected [OF assms(1,2) this [unfolded assms(3)], of p]
  show "addComponent w name cfg p =
              (Return (),
               p\<lparr>trace := trace p @
                 [SpinStart (js ''Adding component...''),
                  HttpGet url,
                  SpinFail (js ''Failed to add component '' @ formatComponentName w name),
                  Stderr (js ''\<newline>Error details: Component not found in repository'')]\<rparr>)"
    by (simp add: assms(3))
next
  fix st body
  assume a: "http_get w url = Reply st body \<and> \<not> (200 \<le> st \<and> st < 300) \<and> st \<noteq> 404"
  then have "fst (axios_get w url p) =
      Throw (Err (js ''Request failed with status code '' @ decimal st) (Some st))"
    by (simp add: axios_get_eq)
  from addComponent_rejected [OF assms(1,2) this [unfolded assms(3)], of p] a
  show "addComponent w name cfg p =
              (Return (),
               p\<lparr>trace := trace p @
                 [SpinStart (js ''Adding component...''),
                  HttpGet url,
                  SpinFail (js ''Failed to add component '' @ formatComponentName w name),
                  Stderr (js ''\<newline>Error details: Request failed with status code '' @
                          decimal st)]\<rparr>)"
    by (simp add: assms(3))
next
  fix m
  assume "http_get w url = NoReply m"
  then have "fst (axios_get w url p) = Throw (Err m None)"
    by (simp add: axios_get_eq)
  from addComponent_rejected [OF assms(1,2) this [unfolded assms(3)], of p]
  show "addComponent w name cfg p =
              (Return (),
               p\<lparr>trace := trace p @
                 [SpinStart (js ''Adding component...''),
                  HttpGet url,
                  SpinFail (js ''Failed to add component '' @ formatComponentName w name),
                  Stderr (js ''\<newline>Error details: '' @ m)]\<rparr>)"
    by (simp add: assms(3))
qed

theorem not_found_is_a_distinct_error_witness:
  "toLowerCase sample_world (js ''avatar'') \<in> set AVAILABLE_COMPONENTS \<and>
   toLowerCase sample_world (js ''card'') \<in> set AVAILABLE_COMPONENTS \<and>
   toLowerCase sample_world (js ''toast'') \<in> set AVAILABLE_COMPONENTS \<and>
   get_prop saved_config (js ''baseUrl'') = Inr (JStr (baseUrl DEFAULT_CONFIG)) \<and>
   http_get sample_world (baseUrl DEFAULT_CONFIG @ js ''/avatar.tsx'') = Reply 404 (js ''404: Not Found'') \<and>
   http_get sample_world (baseUrl DEFAULT_CONFIG @ js ''/card.tsx'') = Reply 500 (js ''Server Error'') \<and>
   http_get sample_world (baseUrl DEFAULT_CONFIG @ js ''/toast.tsx'') =
     NoReply (js ''getaddrinfo ENOTFOUND raw.githubusercontent.com'') \<and>
   trace (snd (addComponent sample_world (js ''avatar'') saved_config (module_loaded sample_files))) =
     [SpinStart (js ''Adding component...''),
      HttpGet (baseUrl DEFAULT_CONFIG @ js ''/avatar.tsx''),
      SpinFail (js ''Failed to add component avatar''),
      Stderr (js ''\<newline>Error details: Component not found in repository'')] \<and>
   trace (snd (addComponent sample_world (js ''card'') saved_config (module_loaded sample_files))) =
     [SpinStart (js ''Adding component...''),
      HttpGet (baseUrl DEFAULT_CONFIG @ js ''/card.tsx''),
      SpinFail (js ''Failed to add component card''),
      Stderr (js ''\<newline>Error details: Request failed with status code 500'')] \<and>
   trace (snd (addComponent sample_world (js ''toast'') saved_config (module_loaded sample_files))) =
     [SpinStart (js ''Adding component...''),
      HttpGet (baseUrl DEFAULT_CONFIG @ js ''/toast.tsx''),
      SpinFail (js ''Failed to add component toast''),
      Stderr (js ''\<newline>Error details: getaddrinfo ENOTFOUND raw.githubusercontent.com'')]"
proof -
  have in_catalog:
    "toLowerCase sample_world (js ''avatar'') \<in> set AVAILABLE_COMPONENTS"
    "toLowerCase sample_world (js ''card'') \<in> set AVAILABLE_COMPONENTS"
    "toLowerCase sample_world (js ''toast'') \<in> set AVAILABLE_COMPONENTS"
    by (simp_all add: AVAILABLE_COMPONENTS_def)
  have urls:
    "baseUrl DEFAULT_CONFIG @ js ''/avatar.tsx'' =
       template sample_world (JStr (baseUrl DEFAULT_CONFIG)) @ js ''/'' @
       toLowerCase sample_world (js ''avatar'') @ js ''.tsx''"
    "baseUrl DEFAULT_CONFIG @ js ''/card.tsx'' =
       template sample_world (JStr (baseUrl DEFAULT_CONFIG)) @ js ''/'' @
       toLowerCase sample_world (js ''card'') @ js ''.tsx''"
    "baseUrl DEFAULT_CONFIG @ js ''/toast.tsx'' =
       template sample_world (JStr (baseUrl DEFAULT_CONFIG)) @ js ''/'' @
       toLowerCase sample_world (js ''toast'') @ js ''.tsx''"
    by simp_all
  have digits: "decimal 500 = js ''500''"
    by (simp add: decimal.simps js_def)
  show ?thesis
    using not_found_is_a_distinct_error [OF in_catalog(1) saved_config_baseUrl urls(1),
        of "module_loaded sample_files"]
      not_found_is_a_distinct_error [OF in_catalog(2) saved_config_baseUrl urls(2),
        of "module_loaded sample_files"]
      not_found_is_a_distinct_error [OF in_catalog(3) saved_config_baseUrl urls(3),
        of "module_loaded sample_files"]
      in_catalog saved_config_baseUrl sample_replies
    by (simp add: module_loaded_def digits)
qed

section \<open>Initialisation\<close>

text \<open>
  Claim C5.  When the merged dependencies of the manifest have no \<open>expo\<close> entry,
  and likewise when the manifest is missing or cannot be read, the command \<open>init\<close>
  ends the process with exit code 1 after the messages of the validator; it writes no
  file, so the files of the project, \<open>albatroz.json\<close> included, are as before.
\<close>

theorem init_outside_expo_project_exits:
  assumes "case manifest_dependencies w fs of
             Inl e \<Rightarrow> True
           | Inr deps \<Rightarrow> deps (js ''expo'') = None"
  shows "run (init_action w) fs =
           (1, fs, Stdout (js ''\<newline>Initializing Albatroz UI...'') # validator_failure w fs) \<and>
         file_writes (Stdout (js ''\<newline>Initializing Albatroz UI...'') # validator_failure w fs) = []"
proof -
  have "\<not> declares w (files (module_loaded fs)) (js ''expo'')"
    using not_declared [OF assms] by (simp add: module_loaded_def)
  from initializeProject_exit [OF this] show ?thesis
    by (simp add: run_init_action exit_code_def module_loaded_def)
qed

theorem init_outside_expo_project_exits_witness:
  "(case manifest_dependencies sample_world plain_files of
      Inl e \<Rightarrow> True
    | Inr deps \<Rightarrow> deps (js ''expo'') = None) \<and>
   run (init_action sample_world) plain_files =
     (1, plain_files,
      [Stdout (js ''\<newline>Initializing Albatroz UI...''),
       ReadFile (js ''package.json''),
       Stderr (js ''\<newline>Error: This is not an Expo project''),
       Stdout (js ''\<newline>At this moment, we only support Expo projects.''),
       Stdout (js ''\<newline>Please create a new project using:''),
       Stdout (js ''\<newline>  npx create-expo-app@latest'')]) \<and>
   (case manifest_dependencies sample_world Map.empty of
      Inl e \<Rightarrow> True
    | Inr deps \<Rightarrow> deps (js ''expo'') = None) \<and>
   run (init_action sample_world) Map.empty =
     (1, Map.empty,
      [Stdout (js ''\<newline>Initializing Albatroz UI...''),
       ReadFile (js ''package.json''),
       Stderr (js ''\<newline>Error: Could not find package.json''),
       Stdout (js ''\<newline>Please make sure you are in the root of your project.'')])"
proof -
  have a: "case manifest_dependencies sample_world plain_files of
      Inl e \<Rightarrow> True
    | Inr deps \<Rightarrow> deps (js ''expo'') = None"
    by (simp add: plain_manifest_dependencies spread2_def)
  have b: "case manifest_dependencies sample_world Map.empty of
      Inl e \<Rightarrow> True
    | Inr deps \<Rightarrow> deps (js ''expo'') = None"
    by (simp add: manifest_dependencies_def)
  show ?thesis
    using init_outside_expo_project_exits [OF a] init_outside_expo_project_exits [OF b] a b
    by (simp add: validator_failure_def plain_manifest_dependencies)
       (simp add: manifest_dependencies_def)
qed

text \<open>
  Claim C6 says that a second run of \<open>init\<close> does not install again whenever the
  dependency is known to be present, from the manifest or from the configuration
  saved before.  The saved configuration is never read by \<open>initializeProject\<close>.
  In the sample world the package manager succeeds without recording the package
  in the manifest: the first run saves a configuration whose flag
  \<open>lucide-react-native\<close> is true, and a second run on the files it leaves prompts
  and runs the installation again.
\<close>

theorem init_reinstalls_despite_saved_config:
  "fst (snd (run (init_action sample_world) expo_only_files)) =
     expo_only_files(CONFIG_FILE \<mapsto> saved_config_text) \<and>
   JSON_parse sample_world saved_config_text =
     Inr (config_json (baseUrl DEFAULT_CONFIG) \<lparr>expo = True, lucide_react_native = True\<rparr>) \<and>
   prompts_shown (snd (snd (run (init_action sample_world)
     (expo_only_files(CONFIG_FILE \<mapsto> saved_config_text))))) =
     [js ''Which package manager do you want to use?''] \<and>
   commands_run (snd (snd (run (init_action sample_world)
     (expo_only_files(CONFIG_FILE \<mapsto> saved_config_text))))) =
     [js ''npm install lucide-react-native'']"
proof -
  have one: "fst (snd (run (init_action sample_world) expo_only_files)) =
     expo_only_files(CONFIG_FILE \<mapsto> saved_config_text)"
    using initializeProject_install [of sample_world "module_loaded expo_only_files" expo_only_files]
      expo_only_declares
    by (simp add: run_init_action module_loaded_def)
  have two: "snd (snd (run (init_action sample_world)
      (expo_only_files(CONFIG_FILE \<mapsto> saved_config_text)))) =
         [Stdout (js ''\<newline>Initializing Albatroz UI...''),
          ReadFile (js ''package.json''), ReadFile (js ''package.json''), ReadFile (js ''package.json''),
          Prompt (js ''Which package manager do you want to use?''),
          SpinStart (js ''Checking and installing dependencies...''),
          Exec (js ''npm install lucide-react-native''),
          WriteFile CONFIG_FILE saved_config_text,
          SpinSucceed (js ''Project initialized successfully!'')]"
    using initializeProject_install [of sample_world
        "module_loaded (expo_only_files(CONFIG_FILE \<mapsto> saved_config_text))"
        "expo_only_files(CONFIG_FILE \<mapsto> saved_config_text)"]
      expo_only_declares
    by (simp add: run_init_action module_loaded_def)
  show ?thesis
    using sample_parse_saved_config by (simp add: one two saved_config_def)
qed

text \<open>
  Claim C6, amended.  The manifest alone decides.  When it declares
  \<open>lucide-react-native\<close>, \<open>initializeProject\<close> neither prompts for a package
  manager nor runs a command.  When it declares \<open>expo\<close> but not
  \<open>lucide-react-native\<close>, the operator is prompted once and the installation
  command is run once, whatever the saved configuration says.
\<close>

theorem manifest_alone_decides_installation:
  "(declares w (files p) (js ''lucide-react-native'') \<longrightarrow>
      prompts_shown (trace (snd (initializeProject w p))) = prompts_shown (trace p) \<and>
      commands_run (trace (snd (initializeProject w p))) = commands_run (trace p)) \<and>
   (declares w (files p) (js ''expo'') \<and> \<not> declares w (files p) (js ''lucide-react-native'') \<longrightarrow>
      prompts_shown (trace (snd (initializeProject w p))) =
        prompts_shown (trace p) @ [js ''Which package manager do you want to use?''] \<and>
      commands_run (trace (snd (initializeProject w p))) = commands_run (trace p) @ [install_line w])"
proof (intro conjI impI)
  assume l: "declares w (files p) (js ''lucide-react-native'')"
  show "prompts_shown (trace (snd (initializeProject w p))) = prompts_shown (trace p)"
    and "commands_run (trace (snd (initializeProject w p))) = commands_run (trace p)"
  proof -
    show "prompts_shown (trace (snd (initializeProject w p))) = prompts_shown (trace p)"
      using l
      by (cases "declares w (files p) (js ''expo'')")
         (simp_all add: initializeProject_present initializeProject_exit validator_failure_def
           split: sum.splits)
    show "commands_run (trace (snd (initializeProject w p))) = commands_run (trace p)"
      using l
      by (cases "declares w (files p) (js ''expo'')")
         (simp_all add: initializeProject_present initializeProject_exit validator_failure_def
           split: sum.splits)
  qed
next
  assume a: "declares w (files p) (js ''expo'') \<and> \<not> declares w (files p) (js ''lucide-react-native'')"
  obtain r fs where ex: "execSync w (install_line w) (files p) = (r, fs)"
    by (cases "execSync w (install_line w) (files p)")
  show "prompts_shown (trace (snd (initializeProject w p))) =
        prompts_shown (trace p) @ [js ''Which package manager do you want to use?'']"
    using a ex
    by (cases r) (simp_all add: initializeProject_install initializeProject_install_failed)
  show "commands_run (trace (snd (initializeProject w p))) = commands_run (trace p) @ [install_line w]"
    using a ex
    by (cases r) (simp_all add: initializeProject_install initializeProject_install_failed)
qed

theorem manifest_alone_decides_installation_witness:
  "declares sample_world (files (module_loaded sample_files)) (js ''lucide-react-native'') \<and>
   prompts_shown (trace (snd (initializeProject sample_world (module_loaded sample_files)))) = [] \<and>
   commands_run (trace (snd (initializeProject sample_world (module_loaded sample_files)))) = [] \<and>
   declares sample_world (files (module_loaded expo_only_files)) (js ''expo'') \<and>
   \<not> declares sample_world (files (module_loaded expo_only_files)) (js ''lucide-react-native'') \<and>
   commands_run (trace (snd (initializeProject sample_world (module_loaded expo_only_files)))) =
     [js ''npm install lucide-react-native'']"
  using manifest_alone_decides_installation [of sample_world "module_loaded sample_files"]
    manifest_alone_decides_installation [of sample_world "module_loaded expo_only_files"]
    sample_declares expo_only_declares
  by (simp add: module_loaded_def)

text \<open>
  Claim C7.  When the installation command throws during \<open>initializeProject\<close>,
  the function returns \<open>false\<close> to its caller and the process goes on (its exit
  code stays 0); it writes no file, so the files are those the package manager
  left, and \<open>albatroz.json\<close> is as before unless the package manager itself
  touched it.
\<close>

theorem failed_install_saves_nothing:
  assumes "declares w (files p) (js ''expo'')"
    and "\<not> declares w (files p) (js ''lucide-react-native'')"
    and "execSync w (install_line w) (files p) = (Some m, fs)"
  shows "fst (initializeProject w p) = Return False \<and>
         file_writes (trace (snd (initializeProject w p))) = file_writes (trace p) \<and>
         files (snd (initializeProject w p)) = fs \<and>
         (fs CONFIG_FILE = files p CONFIG_FILE \<longrightarrow>
            files (snd (initializeProject w p)) CONFIG_FILE = files p CONFIG_FILE) \<and>
         exit_code (fst (initializeProject w p)) = 0"
  by (simp add: initializeProject_install_failed [OF assms] exit_code_def)

theorem failed_install_saves_nothing_witness:
  "declares failing_install_world (files (module_loaded expo_only_files)) (js ''expo'') \<and>
   \<not> declares failing_install_world (files (module_loaded expo_only_files))
        (js ''lucide-react-native'') \<and>
   execSync failing_install_world (install_line failing_install_world)
      (files (module_loaded expo_only_files)) =
     (Some (js ''Command failed: npm install lucide-react-native''), expo_only_files) \<and>
   fst (initializeProject failing_install_world (module_loaded expo_only_files)) = Return False \<and>
   file_writes (trace (snd (initializeProject failing_install_world
      (module_loaded expo_only_files)))) = [] \<and>
   files (snd (initializeProject failing_install_world (module_loaded expo_only_files)))
      CONFIG_FILE = None"
proof -
  have a: "declares failing_install_world (files (module_loaded expo_only_files)) (js ''expo'')"
    and b: "\<not> declares failing_install_world (files (module_loaded expo_only_files))
        (js ''lucide-react-native'')"
    using expo_only_declares by simp_all
  have c: "execSync failing_install_world (install_line failing_install_world)
      (files (module_loaded expo_only_files)) =
     (Some (js ''Command failed: npm install lucide-react-native''), expo_only_files)"
    by (simp add: module_loaded_def)
  show ?thesis
    using failed_install_saves_nothing [OF a b c] a b c
    by (simp add: module_loaded_def expo_only_files_def)
qed

text \<open>
  Claim C10.  The copy \<open>{ ...DEFAULT_CONFIG }\<close> holds the same reference to the
  object \<open>dependencies\<close> as \<open>DEFAULT_CONFIG\<close>.  That object holds
  \<open>false\<close> twice when the module is loaded; after a call of
  \<open>initializeProject\<close> that returned \<open>b\<close> it holds \<open>expo = true\<close> and
  \<open>lucide-react-native = b\<close>, and so does the object that a fresh copy made by a
  second call in the same process refers to.
\<close>

theorem default_config_is_mutated_in_place:
  "dependencies (spread_config DEFAULT_CONFIG) = dependencies DEFAULT_CONFIG \<and>
   heap (module_loaded fs) (dependencies DEFAULT_CONFIG) =
     \<lparr>expo = False, lucide_react_native = False\<rparr> \<and>
   (\<forall>b q. initializeProject w p = (Return b, q) \<longrightarrow>
      heap q (dependencies DEFAULT_CONFIG) = \<lparr>expo = True, lucide_react_native = b\<rparr> \<and>
      heap q (dependencies (spread_config DEFAULT_CONFIG)) =
        \<lparr>expo = True, lucide_react_native = b\<rparr>)"
proof (intro conjI allI impI)
  show "dependencies (spread_config DEFAULT_CONFIG) = dependencies DEFAULT_CONFIG"
    by (simp add: spread_config_def)
  show "heap (module_loaded fs) (dependencies DEFAULT_CONFIG) =
     \<lparr>expo = False, lucide_react_native = False\<rparr>"
    by (simp add: module_loaded_def)
next
  fix b q
  assume run: "initializeProject w p = (Return b, q)"
  have e: "declares w (files p) (js ''expo'')"
  proof (rule ccontr)
    assume "\<not> declares w (files p) (js ''expo'')"
    from initializeProject_exit [OF this] run show False by simp
  qed
  have flags: "heap q (dependencies DEFAULT_CONFIG) = \<lparr>expo = True, lucide_react_native = b\<rparr>"
  proof (cases "declares w (files p) (js ''lucide-react-native'')")
    case True
    from initializeProject_present [OF e True] run show ?thesis
      by (auto simp add: DEFAULT_CONFIG_def)
  next
    case False
    obtain r fs where ex: "execSync w (install_line w) (files p) = (r, fs)"
      by (cases "execSync w (install_line w) (files p)")
    show ?thesis
    proof (cases r)
      case None
      from initializeProject_install [OF e False ex [unfolded None]] run show ?thesis
        by (auto simp add: DEFAULT_CONFIG_def)
    next
      case (Some m)
      from initializeProject_install_failed [OF e False ex [unfolded Some]] run show ?thesis
        by (auto simp add: DEFAULT_CONFIG_def)
    qed
  qed
  then show "heap q (dependencies DEFAULT_CONFIG) = \<lparr>expo = True, lucide_react_native = b\<rparr>" .
  from flags show "heap q (dependencies (spread_config DEFAULT_CONFIG)) =
        \<lparr>expo = True, lucide_react_native = b\<rparr>"
    by (simp add: spread_config_def)
qed

theorem default_config_is_mutated_in_place_witness:
  "fst (initializeProject sample_world (module_loaded sample_files)) = Return True \<and>
   heap (module_loaded sample_files) (dependencies DEFAULT_CONFIG) =
     \<lparr>expo = False, lucide_react_native = False\<rparr> \<and>
   heap (snd (initializeProject sample_world (module_loaded sample_files)))
     (dependencies (spread_config DEFAULT_CONFIG)) = \<lparr>expo = True, lucide_react_native = True\<rparr>"
proof -
  let ?run = "initializeProject sample_world (module_loaded sample_files)"
  have a: "fst ?run = Return True"
    using initializeProject_present [of sample_world "module_loaded sample_files"] sample_declares
    by simp
  then have b: "?run = (Return True, snd ?run)"
    by (cases ?run) simp
  show ?thesis
    using default_config_is_mutated_in_place [of sample_files sample_world "module_loaded sample_files"]
      a b
    by metis
qed

section \<open>The command \<open>add\<close> without a configuration\<close>

text \<open>
  Claim C8 says that every invocation of \<open>add\<close> in a directory without
  \<open>albatroz.json\<close> runs the initialisation and then asks the user to run
  \<open>init\<close> first.  The command runs the validator before it looks for the
  configuration: in a directory whose manifest does not declare \<open>expo\<close> the
  process ends with exit code 1 after the messages of the validator, without any
  initialisation and without that request.
\<close>

theorem add_outside_expo_project_skips_initialisation:
  "plain_files CONFIG_FILE = None \<and>
   run (add_action sample_world (Some (js ''alert''))) plain_files =
     (1, plain_files,
      [ReadFile (js ''package.json''),
       Stderr (js ''\<newline>Error: This is not an Expo project''),
       Stdout (js ''\<newline>At this moment, we only support Expo projects.''),
       Stdout (js ''\<newline>Please create a new project using:''),
       Stdout (js ''\<newline>  npx create-expo-app@latest'')])"
proof -
  have "\<not> declares sample_world (files (module_loaded plain_files)) (js ''expo'')"
    using plain_declares by simp
  from add_action_exit [OF this]
  have "run (add_action sample_world (Some (js ''alert''))) plain_files =
     (1, plain_files, validator_failure sample_world plain_files)"
    by (simp add: run_def exit_code_def)
  moreover have "plain_files CONFIG_FILE = None"
    by (simp add: plain_files_def)
  ultimately show ?thesis
    by (simp add: validator_failure_def plain_manifest_dependencies)
qed

text \<open>
  Claim C8, amended.  In an Expo project (the manifest declares \<open>expo\<close>) without
  \<open>albatroz.json\<close>, the command \<open>add\<close> runs \<open>initializeProject\<close>, which
  returns, then prints \<open>Please run init command first.\<close> and returns normally.
  In that invocation it sends no request and reads no file but the manifest, four
  times: the configuration is not read and no component is fetched.
\<close>

theorem add_bootstraps_missing_config:
  assumes "declares w (files p) (js ''expo'')" and "files p CONFIG_FILE = None"
  shows "(\<exists>b. fst (initializeProject w (logged p [ReadFile (js ''package.json'')])) = Return b) \<and>
         add_action w component p =
           (Return (),
            logged (snd (initializeProject w (logged p [ReadFile (js ''package.json'')])))
              [Stdout (js ''\<newline>Please run init command first.'')]) \<and>
         http_requests (trace (snd (add_action w component p))) = http_requests (trace p) \<and>
         file_reads (trace (snd (add_action w component p))) =
           file_reads (trace p) @
           [js ''package.json'', js ''package.json'', js ''package.json'', js ''package.json'']"
proof -
  let ?p = "logged p [ReadFile (js ''package.json'')]"
  have e: "declares w (files ?p) (js ''expo'')"
    using assms(1) by simp
  show ?thesis
    using fst_initializeProject [OF e] initializeProject_effects [OF e]
    by (simp add: add_action_bootstrap [OF assms])
qed

theorem add_bootstraps_missing_config_witness:
  "declares sample_world (files (module_loaded sample_files)) (js ''expo'') \<and>
   files (module_loaded sample_files) CONFIG_FILE = None \<and>
   run (add_action sample_world (Some (js ''alert''))) sample_files =
     (0, sample_files(CONFIG_FILE \<mapsto> saved_config_text),
      [ReadFile (js ''package.json''),
       Stdout (js ''\<newline>Initializing Albatroz UI...''),
       ReadFile (js ''package.json''), ReadFile (js ''package.json''), ReadFile (js ''package.json''),
       SpinStart (js ''Checking and installing dependencies...''),
       WriteFile CONFIG_FILE saved_config_text,
       SpinSucceed (js ''Project initialized successfully!''),
       Stdout (js ''\<newline>Please run init command first.'')])"
proof -
  have a: "declares sample_world (files (module_loaded sample_files)) (js ''expo'')"
    using sample_declares by simp
  have b: "files (module_loaded sample_files) CONFIG_FILE = None"
    by (simp add: module_loaded_def sample_files_def)
  let ?init = "initializeProject sample_world
      (logged (module_loaded sample_files) [ReadFile (js ''package.json'')])"
  have c: "files (snd ?init) = sample_files(CONFIG_FILE \<mapsto> saved_config_text)"
    "trace (snd ?init) =
       [ReadFile (js ''package.json''),
        Stdout (js ''\<newline>Initializing Albatroz UI...''),
        ReadFile (js ''package.json''), ReadFile (js ''package.json''), ReadFile (js ''package.json''),
        SpinStart (js ''Checking and installing dependencies...''),
        WriteFile CONFIG_FILE saved_config_text,
        SpinSucceed (js ''Project initialized successfully!'')]"
    using sample_declares
    by (simp_all add: initializeProject_present)
  show ?thesis
    using add_bootstraps_missing_config [OF a b, of "Some (js ''alert'')"] a b
    by (simp add: run_def exit_code_def c)
qed

section \<open>The scenario of the specification\<close>

text \<open>
  Claim C2 describes one concrete scenario: the manifest declares \<open>expo\<close> and
  \<open>lucide-react-native\<close>, the server answers the request for \<open>alert.tsx\<close> with
  status 200, and \<open>add alert\<close> is said to create \<open>src/components/ui/Alert.tsx\<close>.
  In the sample world, after \<open>init\<close> and \<open>add alert\<close>, there is no file of that
  name: the body is in \<open>src/components/ui/alert.tsx\<close>.
\<close>

theorem scenario_file_is_not_capitalised:
  "fst (snd (run (init_action sample_world) sample_files)) =
     sample_files(CONFIG_FILE \<mapsto> saved_config_text) \<and>
   fst (snd (run (add_action sample_world (Some (js ''alert'')))
     (sample_files(CONFIG_FILE \<mapsto> saved_config_text)))) (js ''src/components/ui/Alert.tsx'') = None \<and>
   fst (snd (run (add_action sample_world (Some (js ''alert'')))
     (sample_files(CONFIG_FILE \<mapsto> saved_config_text)))) (js ''src/components/ui/alert.tsx'') =
     Some alert_source"
  using scenario_runs [where fs = sample_files, OF sample_scenario]
  by (simp add: sample_files_def CONFIG_FILE_def)

text \<open>
  Claim C2, amended.  In that scenario \<open>init\<close> saves the configuration without a
  prompt and without running a command, and ends with exit code 0; \<open>add alert\<close>
  then sends one request, for \<open><baseUrl>/alert.tsx\<close>, writes the body unchanged to
  \<open>src/components/ui/alert.tsx\<close> (lower case), reports
  \<open>Component alert added successfully!\<close> and ends with exit code 0.  The
  assumptions on \<open>JSON.parse\<close> are that it gives the saved configuration back
  and that it rejects the body, which is not JSON and has no byte order mark.
\<close>

theorem scenario_add_alert:
  assumes "fs (js ''package.json'') = Some manifest"
    and "JSON_parse w manifest = Inr sample_manifest"
    and "JSON_parse w (config_text w True True) =
           Inr (config_json (baseUrl DEFAULT_CONFIG) \<lparr>expo = True, lucide_react_native = True\<rparr>)"
    and "http_get w (baseUrl DEFAULT_CONFIG @ js ''/alert.tsx'') = Reply 200 body"
    and "strip_bom body = body"
    and "JSON_parse w body = Inl m"
  shows "run (init_action w) fs =
           (0, fs(CONFIG_FILE \<mapsto> config_text w True True),
            [Stdout (js ''\<newline>Initializing Albatroz UI...''),
             ReadFile (js ''package.json''), ReadFile (js ''package.json''),
             ReadFile (js ''package.json''),
             SpinStart (js ''Checking and installing dependencies...''),
             WriteFile CONFIG_FILE (config_text w True True),
             SpinSucceed (js ''Project initialized successfully!'')]) \<and>
         run (add_action w (Some (js ''alert''))) (fs(CONFIG_FILE \<mapsto> config_text w True True)) =
           (0, fs(CONFIG_FILE \<mapsto> config_text w True True,
                  js ''src/components/ui/alert.tsx'' \<mapsto> body),
            [ReadFile (js ''package.json''), ReadFile CONFIG_FILE,
             SpinStart (js ''Adding component...''),
             HttpGet (baseUrl DEFAULT_CONFIG @ js ''/alert.tsx''),
             MkDirs (js ''src/components/ui''),
             WriteFile (js ''src/components/ui/alert.tsx'') body,
             SpinSucceed (js ''Component alert added successfully!''),
             Stdout (js ''\<newline>Location: src/components/ui/alert.tsx'')])"
  using scenario_runs [where fs = fs, OF assms] by simp

theorem scenario_add_alert_witness:
  "sample_files (js ''package.json'') = Some sample_manifest_text \<and>
   JSON_parse sample_world sample_manifest_text = Inr sample_manifest \<and>
   JSON_parse sample_world (config_text sample_world True True) =
     Inr (config_json (baseUrl DEFAULT_CONFIG) \<lparr>expo = True, lucide_react_native = True\<rparr>) \<and>
   http_get sample_world (baseUrl DEFAULT_CONFIG @ js ''/alert.tsx'') = Reply 200 alert_source \<and>
   strip_bom alert_source = alert_source \<and>
   JSON_parse sample_world alert_source = Inl (js ''Unexpected end of JSON input'') \<and>
   run (add_action sample_world (Some (js ''alert'')))
       (sample_files(CONFIG_FILE \<mapsto> saved_config_text)) =
     (0, sample_files(CONFIG_FILE \<mapsto> saved_config_text,
                      js ''src/components/ui/alert.tsx'' \<mapsto> alert_source),
      [ReadFile (js ''package.json''), ReadFile CONFIG_FILE,
       SpinStart (js ''Adding component...''),
       HttpGet (baseUrl DEFAULT_CONFIG @ js ''/alert.tsx''),
       MkDirs (js ''src/components/ui''),
       WriteFile (js ''src/components/ui/alert.tsx'') alert_source,
       SpinSucceed (js ''Component alert added successfully!''),
       Stdout (js ''\<newline>Location: src/components/ui/alert.tsx'')])"
  using scenario_add_alert [where fs = sample_files, OF sample_scenario] sample_scenario
  by simp

section \<open>The display form of a component name\<close>

text \<open>
  Claim C9 says that \<open>formatComponentName\<close> is the full lower-casing of any
  string.  The function lower-cases the first code unit and the rest of the string
  separately, and \<open>toLowerCase\<close> works on code points: a capital letter outside
  the Basic Multilingual Plane is a surrogate pair, which the function splits
  into two lone surrogates that have no lower case.  For the string made of the
  single letter U+10400 the function returns the string unchanged, while its
  lower-casing is the letter U+10428.
\<close>

theorem format_differs_from_lowercase_on_surrogate_pair:
  "formatComponentName sample_world [0xD801, 0xDC00] = [0xD801, 0xDC00] \<and>
   toLowerCase sample_world [0xD801, 0xDC00] = [0xD801, 0xDC28] \<and>
   formatComponentName sample_world [0xD801, 0xDC00] \<noteq> toLowerCase sample_world [0xD801, 0xDC00]"
  by (simp add: formatComponentName_def toLowerCase_def is_ascii_def charAt_def slice_def
      sample_world_def lower_by_code_point_def lower_code_point_def utf16_def
      is_high_surrogate_def is_low_surrogate_def)

text \<open>
  Claim C9, amended.  For every name made of ASCII characters,
  \<open>formatComponentName\<close> is the full lower-casing of the name, not only of its
  first character.  On these names it is idempotent and its result has no capital
  letter; it maps the empty string to the empty string; when the lower-cased name
  is in the catalog, the name of the written file is that catalog entry; and the
  catalog entries, which are what the listing displays, are unchanged by the
  function and have no capital letter.
\<close>

theorem format_lowercases_ascii_names:
  assumes "is_ascii name"
  shows "formatComponentName w name = toLowerCase w name \<and>
         formatComponentName w (formatComponentName w name) = formatComponentName w name \<and>
         formatComponentName w [] = [] \<and>
         (\<forall>u\<in>set (formatComponentName w name). \<not> is_upper_unit u) \<and>
         (toLowerCase w name \<in> set AVAILABLE_COMPONENTS \<longrightarrow>
            formatComponentName w name \<in> set AVAILABLE_COMPONENTS) \<and>
         map (formatComponentName w) AVAILABLE_COMPONENTS = AVAILABLE_COMPONENTS \<and>
         (\<forall>c\<in>set AVAILABLE_COMPONENTS. \<forall>u\<in>set c. \<not> is_upper_unit u)"
proof -
  note lower = toLowerCase_ascii [OF assms, of w]
  have eq: "formatComponentName w name = toLowerCase w name"
    using assms by (rule format_ascii)
  have "formatComponentName w (toLowerCase w name) = toLowerCase w (toLowerCase w name)"
    using lower(2) by (rule format_ascii)
  also have "\<dots> = map lower_unit (map lower_unit name)"
    using toLowerCase_ascii(1) [OF lower(2), of w] lower(1) by simp
  also have "\<dots> = toLowerCase w name"
    by (simp add: lower(1) lower_unit_idem)
  finally have idem: "formatComponentName w (formatComponentName w name) = formatComponentName w name"
    by (simp add: eq)
  have empty: "formatComponentName w [] = []"
    by (simp add: formatComponentName_def)
  have low: "\<forall>u\<in>set (formatComponentName w name). \<not> is_upper_unit u"
    by (simp add: eq lower(1) lower_unit_not_upper)
  have catalog: "\<forall>c\<in>set AVAILABLE_COMPONENTS. \<forall>u\<in>set c. \<not> is_upper_unit u"
    by (simp add: AVAILABLE_COMPONENTS_def js_def is_upper_unit_def)
  show ?thesis
    using eq idem empty low catalog catalog_format [of w] by simp
qed

theorem format_lowercases_ascii_names_witness:
  "is_ascii (js ''Alert'') \<and>
   formatComponentName sample_world (js ''Alert'') = js ''alert'' \<and>
   toLowerCase sample_world (js ''Alert'') = js ''alert'' \<and>
   formatComponentName sample_world (formatComponentName sample_world (js ''Alert'')) = js ''alert'' \<and>
   formatComponentName sample_world (js ''Alert'') \<in> set AVAILABLE_COMPONENTS"
proof -
  have a: "is_ascii (js ''Alert'')"
    by (simp add: is_ascii_def js_def)
  have b: "toLowerCase sample_world (js ''Alert'') \<in> set AVAILABLE_COMPONENTS"
    by (simp add: AVAILABLE_COMPONENTS_def)
  show ?thesis
    using format_lowercases_ascii_names [OF a, of sample_world] a b
    by simp
qed

end
